theory Spec2Isabelle
  imports Main "HOL-Library.Word"
begin

section \<open>Go values used by msp/mspimpl.go\<close>

text \<open>
  A Go byte slice is either \<open>nil\<close> or a sequence of bytes; \<open>getIdentityFromConf\<close> tests
  for \<open>nil\<close>, so the difference is kept: \<open>None\<close> is the nil slice. A slice of
  identities is modelled the same way.
\<close>

type_synonym byte = "8 word"
type_synonym bytes = "byte list option"

fun elems :: "'a list option \<Rightarrow> 'a list" where
  "elems None = []"
| "elems (Some xs) = xs"

text \<open>\<open>len\<close> of a slice; the nil slice has length 0.\<close>

fun len :: "'a list option \<Rightarrow> nat" where
  "len None = 0"
| "len (Some xs) = length xs"

text \<open>\<open>bytes.Compare\<close>: lexicographic, nil and empty compare equal.\<close>

fun compare_list :: "byte list \<Rightarrow> byte list \<Rightarrow> int" where
  "compare_list [] [] = 0"
| "compare_list [] (y # ys) = - 1"
| "compare_list (x # xs) [] = 1"
| "compare_list (x # xs) (y # ys) =
     (if x < y then - 1 else if y < x then 1 else compare_list xs ys)"

definition bytes_Compare :: "bytes \<Rightarrow> bytes \<Rightarrow> int" where
  "bytes_Compare a b = compare_list (elems a) (elems b)"

section \<open>Records of the imported packages\<close>

text \<open>\<open>pem.Block\<close>, \<open>x509.Certificate\<close>, \<open>x509.VerifyOptions\<close> with the fields the
  code reads. A \<open>CertPool\<close> is the list of the certificates added to it.\<close>

record pem_Block =
  Type :: string
  Bytes :: bytes

record Certificate =
  Raw :: bytes
  IsCA :: bool
  Subject :: string
  Issuer :: string

type_synonym CertPool = "Certificate list"

record VerifyOptions =
  Roots :: CertPool
  Intermediates :: CertPool

text \<open>\<open>CertPool.AddCert\<close> ignores a certificate that the pool already holds
  (compared by its raw bytes).\<close>

definition AddCert :: "Certificate \<Rightarrow> CertPool \<Rightarrow> CertPool" where
  "AddCert c pool = (if \<exists>c' \<in> set pool. Raw c' = Raw c then pool else pool @ [c])"

text \<open>The protobuf messages: \<open>m.MSPConfig\<close>, \<open>m.FabricMSPConfig\<close>, \<open>m.KeyInfo\<close>,
  \<open>m.SigningIdentityInfo\<close>, \<open>SerializedIdentity\<close>, \<open>common.MSPRole\<close>,
  \<open>common.MSPPrincipal\<close>. A pointer field that may be nil is an option.\<close>

record MSPConfig =
  Config :: bytes

record KeyInfo =
  KeyIdentifier :: string
  KeyMaterial :: bytes

record SigningIdentityInfo =
  PublicSigner :: bytes
  PrivateSigner :: "KeyInfo option"

record FabricMSPConfig =
  Name :: string
  RootCerts :: "bytes list option"
  IntermediateCerts :: "bytes list option"
  Admins :: "bytes list option"
  SigningIdentity :: "SigningIdentityInfo option"

record SerializedIdentity =
  Mspid :: string
  IdBytes :: bytes

text \<open>The two protobuf enumerations are int32 values with named members; a value
  outside the named members keeps its number.\<close>

datatype MSPRole_MSPRoleType = MSPRole_MEMBER | MSPRole_ADMIN | MSPRole_other int

record MSPRole =
  MSPIdentifier :: string
  Role :: MSPRole_MSPRoleType

datatype MSPPrincipal_Classification =
  MSPPrincipal_ROLE
| MSPPrincipal_ORGANIZATION_UNIT
| MSPPrincipal_IDENTITY
| MSPPrincipal_other int

record MSPPrincipal =
  PrincipalClassification :: MSPPrincipal_Classification
  Principal :: bytes

section \<open>Identities\<close>

text \<open>
  Modelled from the spec: the types \<open>IdentityIdentifier\<close>, \<open>identity\<close> and
  \<open>signingidentity\<close> and the constructors \<open>newIdentity\<close> and \<open>newSigningIdentity\<close>
  are declared in another file of the package. The spec gives an Identity an identifier
  (provider name and local id), a parsed certificate and a public-key handle, and a
  SigningIdentity a signer handle in addition. The back-reference to the owning store is a
  pointer that no function of this file follows; it is left out.
\<close>

record IdentityIdentifier =
  Mspid_of :: string
  Id_of :: string

record 'k identity =
  id_of :: IdentityIdentifier
  cert :: Certificate
  pk :: 'k

record ('k, 's) signingidentity = "'k identity" +
  sid_signer :: 's

text \<open>
  An \<open>Identity\<close> interface value: nil, a pointer to an \<open>identity\<close> (the one dynamic type
  the type switch of \<open>Validate\<close> recognises), a pointer to a \<open>signingidentity\<close> (a
  SigningIdentity is an Identity with a signer, so it is an Identity of another dynamic
  type), or a value of any other dynamic type, of which this file only uses the results
  of the interface methods \<open>GetMSPIdentifier\<close> and \<open>Serialize\<close>.
\<close>

datatype ('k, 's) Identity =
  NilIdentity
| X509Identity "'k identity"
| X509SigningIdentity "('k, 's) signingidentity"
| OtherIdentity string "string + bytes"

text \<open>The identity inside a signing identity, and the certificate that an identity
  is built on, when it has one.\<close>

definition embedded_identity :: "('k, 's) signingidentity \<Rightarrow> 'k identity" where
  "embedded_identity s = \<lparr>id_of = id_of s, cert = cert s, pk = pk s\<rparr>"

fun underlying_certificate :: "('k, 's) Identity \<Rightarrow> Certificate option" where
  "underlying_certificate (X509Identity i) = Some (cert i)"
| "underlying_certificate (X509SigningIdentity s) = Some (cert s)"
| "underlying_certificate _ = None"

definition newIdentity :: "IdentityIdentifier \<Rightarrow> Certificate \<Rightarrow> 'k \<Rightarrow> ('k, 's) Identity" where
  "newIdentity i c k = X509Identity \<lparr>id_of = i, cert = c, pk = k\<rparr>"

definition newSigningIdentity ::
  "IdentityIdentifier \<Rightarrow> Certificate \<Rightarrow> 'k \<Rightarrow> 's \<Rightarrow> ('k, 's) signingidentity" where
  "newSigningIdentity i c k s = \<lparr>id_of = i, cert = c, pk = k, sid_signer = s\<rparr>"

section \<open>Errors and panics\<close>

text \<open>
  Every \<open>fmt.Errorf\<close> and \<open>errors.New\<close> of the file is one constructor; an argument is
  the text that the format string inserts. A panic is not an error value: it is a third
  kind of result.
\<close>

datatype error =
  NilIdBytes
| PemDecodeFailed
| ParseCertFailed string
| PubKeyImportFailed string
| NilSidInfo
| PrivKeyImportFailed string
| SignerInitFailed string
| NilConf
| UnmarshalConfFailed string
| NoRootCerts
| InvalidMspInstance
| CAUsedAsIdentity
| VerifyFailed string
| IdentityTypeNotRecognized
| UnmarshalSerializedIdentityFailed string
| MspIdMismatch string string
| DeserPemDecodeFailed
| DeserParseCertFailed string
| DeserPubKeyImportFailed string
| UnmarshalRoleFailed string
| DifferentMSP string string
| InvalidRoleType int
| SerializeFailed string
| IdentitiesDoNotMatch
| InvalidPrincipalType int

datatype panic =
  NotYetImplemented
| NilPointerDereference
| InterfaceConversion

datatype 'a result = Ok 'a | Err error | Panic panic

section \<open>The imported functions\<close>

text \<open>
  The functions of \<open>encoding/pem\<close>, \<open>crypto/x509\<close>, \<open>proto\<close>, the BCCSP provider and
  its signer are parameters of the model. \<open>Inl\<close> carries the text of the error
  they return. \<open>KeyImport\<close> is called with two option types, hence two functions.
  \<open>pem_EncodeToMemory\<close> and \<open>Marshal_SerializedIdentity\<close> are not called in this file;
  the serialisation of an identity uses them.
\<close>

record ('k, 's) bccsp_env =
  pem_Decode :: "bytes \<Rightarrow> pem_Block option"
  x509_ParseCertificate :: "bytes \<Rightarrow> string + Certificate"
  KeyImport_X509PublicKey :: "Certificate \<Rightarrow> string + 'k"
  KeyImport_ECDSAPrivateKey :: "bytes \<Rightarrow> string + 'k"
  CryptoSigner_Init :: "'k \<Rightarrow> string + 's"
  Certificate_Verify :: "Certificate \<Rightarrow> VerifyOptions \<Rightarrow> string option"
  Unmarshal_FabricMSPConfig :: "bytes \<Rightarrow> string + FabricMSPConfig"
  Unmarshal_SerializedIdentity :: "bytes \<Rightarrow> string + SerializedIdentity"
  Unmarshal_MSPRole :: "bytes \<Rightarrow> string + MSPRole"
  pem_EncodeToMemory :: "pem_Block \<Rightarrow> bytes"
  Marshal_SerializedIdentity :: "SerializedIdentity \<Rightarrow> string + bytes"

section \<open>The store\<close>

record ('k, 's) bccspmsp =
  rootCerts :: "('k, 's) Identity list option"
  intermediateCerts :: "('k, 's) Identity list option"
  signer :: "('k, 's) signingidentity option"
  admins :: "('k, 's) Identity list option"
  name :: string
  opts :: "VerifyOptions option"

text \<open>\<open>NewBccspMsp\<close> returns the zero value of the struct with the provider set.\<close>

definition NewBccspMsp :: "('k, 's) bccspmsp" where
  "NewBccspMsp = \<lparr>rootCerts = None, intermediateCerts = None, signer = None,
     admins = None, name = [], opts = None\<rparr>"

subsection \<open>getIdentityFromConf\<close>

definition getIdentityFromConf ::
  "('k, 's) bccsp_env \<Rightarrow> ('k, 's) bccspmsp \<Rightarrow> bytes \<Rightarrow> error + ('k, 's) Identity" where
  "getIdentityFromConf env msp idBytes =
     (if idBytes = None then Inl NilIdBytes
      else case pem_Decode env idBytes of
        None \<Rightarrow> Inl PemDecodeFailed
      | Some pemCert \<Rightarrow>
          (case x509_ParseCertificate env (Bytes pemCert) of
             Inl e \<Rightarrow> Inl (ParseCertFailed e)
           | Inr c \<Rightarrow>
               (case KeyImport_X509PublicKey env c of
                  Inl e \<Rightarrow> Inl (PubKeyImportFailed e)
                | Inr certPubK \<Rightarrow>
                    Inr (newIdentity \<lparr>Mspid_of = name msp, Id_of = ''IDENTITY''\<rparr>
                           c certPubK))))"

subsection \<open>getSigningIdentityFromConf\<close>

text \<open>The type assertion of \<open>v\<close> to a pointer to \<open>identity\<close> panics on any other dynamic type.\<close>

fun as_identity :: "('k, 's) Identity \<Rightarrow> 'k identity option" where
  "as_identity (X509Identity i) = Some i"
| "as_identity _ = None"

text \<open>
  The result of \<open>pem.Decode\<close> on the key material is dereferenced without a test
  (\<open>pemKey.Bytes\<close>), and so is the pointer \<open>sidInfo.PrivateSigner\<close>.
\<close>

definition getSigningIdentityFromConf ::
  "('k, 's) bccsp_env \<Rightarrow> ('k, 's) bccspmsp \<Rightarrow> SigningIdentityInfo option
     \<Rightarrow> ('k, 's) signingidentity result" where
  "getSigningIdentityFromConf env msp sidInfo =
     (case sidInfo of
        None \<Rightarrow> Err NilSidInfo
      | Some si \<Rightarrow>
          (case getIdentityFromConf env msp (PublicSigner si) of
             Inl e \<Rightarrow> Err e
           | Inr idPub \<Rightarrow>
               (case PrivateSigner si of
                  None \<Rightarrow> Panic NilPointerDereference
                | Some ki \<Rightarrow>
                    (case pem_Decode env (KeyMaterial ki) of
                       None \<Rightarrow> Panic NilPointerDereference
                     | Some pemKey \<Rightarrow>
                         (case KeyImport_ECDSAPrivateKey env (Bytes pemKey) of
                            Inl e \<Rightarrow> Err (PrivKeyImportFailed e)
                          | Inr key \<Rightarrow>
                              (case CryptoSigner_Init env key of
                                 Inl e \<Rightarrow> Err (SignerInitFailed e)
                               | Inr peerSigner \<Rightarrow>
                                   (case as_identity idPub of
                                      None \<Rightarrow> Panic InterfaceConversion
                                    | Some i \<Rightarrow>
                                        Ok (newSigningIdentity
                                              \<lparr>Mspid_of = name msp, Id_of = ''DEFAULT''\<rparr>
                                              (cert i) (pk i) peerSigner))))))))"

subsection \<open>Setup\<close>

text \<open>
  The three range statements of \<open>Setup\<close> have one shape: the slice was made with
  \<open>len\<close> nil entries, entry \<open>i\<close> is overwritten with the identity of blob \<open>i\<close>, and the
  first failing blob ends \<open>Setup\<close> with the slice filled up to there.
  \<open>getIdentityFromConf\<close> reads only the name of the store, which they do not change.
\<close>

fun fill_identities ::
  "('k, 's) bccsp_env \<Rightarrow> ('k, 's) bccspmsp \<Rightarrow> bytes list \<Rightarrow> nat \<Rightarrow> ('k, 's) Identity list
     \<Rightarrow> error option \<times> ('k, 's) Identity list" where
  "fill_identities env msp [] i ids = (None, ids)"
| "fill_identities env msp (b # bs) i ids =
     (case getIdentityFromConf env msp b of
        Inl e \<Rightarrow> (Some e, ids)
      | Inr ident \<Rightarrow> fill_identities env msp bs (Suc i) (ids[i := ident]))"

definition make_identities :: "nat \<Rightarrow> ('k, 's) Identity list" where
  "make_identities n = replicate n NilIdentity"

definition setup_admins ::
  "('k, 's) bccsp_env \<Rightarrow> ('k, 's) bccspmsp \<Rightarrow> FabricMSPConfig
     \<Rightarrow> error option \<times> ('k, 's) bccspmsp" where
  "setup_admins env msp conf =
     (case Admins conf of
        None \<Rightarrow> (None, msp)
      | Some blobs \<Rightarrow>
          (case fill_identities env msp blobs 0 (make_identities (length blobs)) of
             (e, ids) \<Rightarrow> (e, msp\<lparr>admins := Some ids\<rparr>)))"

definition setup_roots ::
  "('k, 's) bccsp_env \<Rightarrow> ('k, 's) bccspmsp \<Rightarrow> FabricMSPConfig
     \<Rightarrow> error option \<times> ('k, 's) bccspmsp" where
  "setup_roots env msp conf =
     (if len (RootCerts conf) = 0 then (Some NoRootCerts, msp)
      else case fill_identities env msp (elems (RootCerts conf)) 0
                  (make_identities (len (RootCerts conf))) of
             (e, ids) \<Rightarrow> (e, msp\<lparr>rootCerts := Some ids\<rparr>))"

definition setup_intermediates ::
  "('k, 's) bccsp_env \<Rightarrow> ('k, 's) bccspmsp \<Rightarrow> FabricMSPConfig
     \<Rightarrow> error option \<times> ('k, 's) bccspmsp" where
  "setup_intermediates env msp conf =
     (case IntermediateCerts conf of
        None \<Rightarrow> (None, msp\<lparr>intermediateCerts := Some (make_identities 0)\<rparr>)
      | Some blobs \<Rightarrow>
          (case fill_identities env msp blobs 0 (make_identities (length blobs)) of
             (e, ids) \<Rightarrow> (e, msp\<lparr>intermediateCerts := Some ids\<rparr>)))"

definition setup_signer ::
  "('k, 's) bccsp_env \<Rightarrow> ('k, 's) bccspmsp \<Rightarrow> FabricMSPConfig
     \<Rightarrow> unit result \<times> ('k, 's) bccspmsp" where
  "setup_signer env msp conf =
     (case SigningIdentity conf of
        None \<Rightarrow> (Ok (), msp)
      | Some si \<Rightarrow>
          (case getSigningIdentityFromConf env msp (Some si) of
             Err e \<Rightarrow> (Err e, msp)
           | Panic p \<Rightarrow> (Panic p, msp)
           | Ok sid \<Rightarrow> (Ok (), msp\<lparr>signer := Some sid\<rparr>)))"

text \<open>The last two range statements add the certificate of every entry to a pool; the type
  assertion on the entry panics unless it is an \<open>identity\<close>.\<close>

fun add_certs :: "('k, 's) Identity list \<Rightarrow> CertPool \<Rightarrow> panic option \<times> CertPool" where
  "add_certs [] pool = (None, pool)"
| "add_certs (v # vs) pool =
     (case as_identity v of
        None \<Rightarrow> (Some InterfaceConversion, pool)
      | Some i \<Rightarrow> add_certs vs (AddCert (cert i) pool))"

definition setup_opts :: "('k, 's) bccspmsp \<Rightarrow> unit result \<times> ('k, 's) bccspmsp" where
  "setup_opts msp =
     (case add_certs (elems (rootCerts msp)) [] of
        (Some p, rs) \<Rightarrow> (Panic p, msp\<lparr>opts := Some \<lparr>Roots = rs, Intermediates = []\<rparr>\<rparr>)
      | (None, rs) \<Rightarrow>
          (case add_certs (elems (intermediateCerts msp)) [] of
             (Some p, ims) \<Rightarrow> (Panic p, msp\<lparr>opts := Some \<lparr>Roots = rs, Intermediates = ims\<rparr>\<rparr>)
           | (None, ims) \<Rightarrow> (Ok (), msp\<lparr>opts := Some \<lparr>Roots = rs, Intermediates = ims\<rparr>\<rparr>)))"

text \<open>\<open>Setup\<close> returns its error and leaves the store as the assignments made so far
  have left it; the model returns both.\<close>

definition Setup ::
  "('k, 's) bccsp_env \<Rightarrow> ('k, 's) bccspmsp \<Rightarrow> MSPConfig option
     \<Rightarrow> unit result \<times> ('k, 's) bccspmsp" where
  "Setup env msp conf1 =
     (case conf1 of
        None \<Rightarrow> (Err NilConf, msp)
      | Some c1 \<Rightarrow>
          (case Unmarshal_FabricMSPConfig env (Config c1) of
             Inl e \<Rightarrow> (Err (UnmarshalConfFailed e), msp)
           | Inr conf \<Rightarrow>
               (case setup_admins env (msp\<lparr>name := Name conf\<rparr>) conf of
                  (Some e, msp2) \<Rightarrow> (Err e, msp2)
                | (None, msp2) \<Rightarrow>
                    (case setup_roots env msp2 conf of
                       (Some e, msp3) \<Rightarrow> (Err e, msp3)
                     | (None, msp3) \<Rightarrow>
                         (case setup_intermediates env msp3 conf of
                            (Some e, msp4) \<Rightarrow> (Err e, msp4)
                          | (None, msp4) \<Rightarrow>
                              (case setup_signer env msp4 conf of
                                 (Err e, msp5) \<Rightarrow> (Err e, msp5)
                               | (Panic p, msp5) \<Rightarrow> (Panic p, msp5)
                               | (Ok u, msp5) \<Rightarrow> setup_opts msp5))))))"

subsection \<open>Validate\<close>

definition Validate ::
  "('k, 's) bccsp_env \<Rightarrow> ('k, 's) bccspmsp \<Rightarrow> ('k, 's) Identity \<Rightarrow> unit result" where
  "Validate env msp ident =
     (case ident of
        X509Identity i \<Rightarrow>
          (case opts msp of
             None \<Rightarrow> Err InvalidMspInstance
           | Some vo \<Rightarrow>
               if IsCA (cert i) then Err CAUsedAsIdentity
               else (case Certificate_Verify env (cert i) vo of
                       Some e \<Rightarrow> Err (VerifyFailed e)
                     | None \<Rightarrow> Ok ()))
      | _ \<Rightarrow> Err IdentityTypeNotRecognized)"

subsection \<open>DeserializeIdentity\<close>

definition deserializeIdentityInternal ::
  "('k, 's) bccsp_env \<Rightarrow> ('k, 's) bccspmsp \<Rightarrow> bytes \<Rightarrow> error + ('k, 's) Identity" where
  "deserializeIdentityInternal env msp serializedIdentity =
     (case pem_Decode env serializedIdentity of
        None \<Rightarrow> Inl DeserPemDecodeFailed
      | Some bl \<Rightarrow>
          (case x509_ParseCertificate env (Bytes bl) of
             Inl e \<Rightarrow> Inl (DeserParseCertFailed e)
           | Inr c \<Rightarrow>
               (case KeyImport_X509PublicKey env c of
                  Inl e \<Rightarrow> Inl (DeserPubKeyImportFailed e)
                | Inr pub \<Rightarrow>
                    Inr (newIdentity \<lparr>Mspid_of = name msp, Id_of = ''DEFAULT''\<rparr> c pub))))"

definition DeserializeIdentity ::
  "('k, 's) bccsp_env \<Rightarrow> ('k, 's) bccspmsp \<Rightarrow> bytes \<Rightarrow> error + ('k, 's) Identity" where
  "DeserializeIdentity env msp serializedID =
     (case Unmarshal_SerializedIdentity env serializedID of
        Inl e \<Rightarrow> Inl (UnmarshalSerializedIdentityFailed e)
      | Inr sId \<Rightarrow>
          if Mspid sId \<noteq> name msp then Inl (MspIdMismatch (name msp) (Mspid sId))
          else deserializeIdentityInternal env msp (IdBytes sId))"

subsection \<open>The interface methods of an identity\<close>

text \<open>
  Modelled from the spec: the methods \<open>GetMSPIdentifier\<close> and \<open>Serialize\<close> of
  \<open>identity\<close> are defined in another file of the package. The spec makes the identifier
  of an Identity a provider name with a local id, and the serialised form the wire record
  \<open>{mspId, idBytes}\<close> in which \<open>idBytes\<close> is the certificate, PEM-encoded. A signing
  identity has the methods of the identity inside it. A method call on the nil interface
  value panics: \<open>None\<close>.
\<close>

fun GetMSPIdentifier :: "('k, 's) Identity \<Rightarrow> string option" where
  "GetMSPIdentifier NilIdentity = None"
| "GetMSPIdentifier (X509Identity i) = Some (Mspid_of (id_of i))"
| "GetMSPIdentifier (X509SigningIdentity s) = Some (Mspid_of (id_of s))"
| "GetMSPIdentifier (OtherIdentity m s) = Some m"

definition serialize_identity :: "('k, 's) bccsp_env \<Rightarrow> 'k identity \<Rightarrow> string + bytes" where
  "serialize_identity env i =
     Marshal_SerializedIdentity env
       \<lparr>Mspid = Mspid_of (id_of i),
        IdBytes = pem_EncodeToMemory env \<lparr>Type = ''CERTIFICATE'', Bytes = Raw (cert i)\<rparr>\<rparr>"

fun Serialize :: "('k, 's) bccsp_env \<Rightarrow> ('k, 's) Identity \<Rightarrow> (string + bytes) option" where
  "Serialize env NilIdentity = None"
| "Serialize env (X509Identity i) = Some (serialize_identity env i)"
| "Serialize env (X509SigningIdentity s) = Some (serialize_identity env (embedded_identity s))"
| "Serialize env (OtherIdentity m s) = Some s"

subsection \<open>SatisfiesPrincipal\<close>

definition SatisfiesPrincipal ::
  "('k, 's) bccsp_env \<Rightarrow> ('k, 's) bccspmsp \<Rightarrow> ('k, 's) Identity \<Rightarrow> MSPPrincipal option
     \<Rightarrow> unit result" where
  "SatisfiesPrincipal env msp ident princ =
     (case princ of
        None \<Rightarrow> Panic NilPointerDereference
      | Some p \<Rightarrow>
          (case PrincipalClassification p of
             MSPPrincipal_ROLE \<Rightarrow>
               (case Unmarshal_MSPRole env (Principal p) of
                  Inl e \<Rightarrow> Err (UnmarshalRoleFailed e)
                | Inr mspRole \<Rightarrow>
                    if MSPIdentifier mspRole \<noteq> name msp then
                      (case GetMSPIdentifier ident of
                         None \<Rightarrow> Panic NilPointerDereference
                       | Some got \<Rightarrow> Err (DifferentMSP (MSPIdentifier mspRole) got))
                    else
                      (case Role mspRole of
                         MSPRole_MEMBER \<Rightarrow> Validate env msp ident
                       | MSPRole_ADMIN \<Rightarrow> Panic NotYetImplemented
                       | MSPRole_other n \<Rightarrow> Err (InvalidRoleType n)))
           | MSPPrincipal_IDENTITY \<Rightarrow>
               (case Serialize env ident of
                  None \<Rightarrow> Panic NilPointerDereference
                | Some (Inl e) \<Rightarrow> Err (SerializeFailed e)
                | Some (Inr idBytes) \<Rightarrow>
                    if bytes_Compare idBytes (Principal p) = 0 then Ok ()
                    else Err IdentitiesDoNotMatch)
           | MSPPrincipal_ORGANIZATION_UNIT \<Rightarrow> Panic NotYetImplemented
           | MSPPrincipal_other n \<Rightarrow> Err (InvalidPrincipalType n)))"

section \<open>The error names of the specification\<close>

text \<open>
  The code returns untyped errors that differ in their message. The specification names
  kinds of errors; \<open>spec_error_of\<close> gives the kind under which it lists each failure of
  the code: sections 4.1 to 4.5 name the kind of most failures, and a failure for which
  they name none is \<open>Unclassified\<close>. No error of the code is a NotImplementedError.
\<close>

datatype spec_error =
  ConfigError | DecodeError | ParseError | UninitializedError | CAUsedAsIdentityError
| ChainVerificationError | MSPMismatchError | DomainMismatchError | IdentityMismatchError
| UnknownRoleError | UnknownPrincipalTypeError | Unclassified

fun spec_error_of :: "error \<Rightarrow> spec_error" where
  "spec_error_of NilIdBytes = DecodeError"
| "spec_error_of PemDecodeFailed = DecodeError"
| "spec_error_of (ParseCertFailed e) = ParseError"
| "spec_error_of (PubKeyImportFailed e) = Unclassified"
| "spec_error_of NilSidInfo = Unclassified"
| "spec_error_of (PrivKeyImportFailed e) = Unclassified"
| "spec_error_of (SignerInitFailed e) = Unclassified"
| "spec_error_of NilConf = ConfigError"
| "spec_error_of (UnmarshalConfFailed e) = ConfigError"
| "spec_error_of NoRootCerts = ConfigError"
| "spec_error_of InvalidMspInstance = UninitializedError"
| "spec_error_of CAUsedAsIdentity = CAUsedAsIdentityError"
| "spec_error_of (VerifyFailed e) = ChainVerificationError"
| "spec_error_of IdentityTypeNotRecognized = Unclassified"
| "spec_error_of (UnmarshalSerializedIdentityFailed e) = DecodeError"
| "spec_error_of (MspIdMismatch a b) = MSPMismatchError"
| "spec_error_of DeserPemDecodeFailed = DecodeError"
| "spec_error_of (DeserParseCertFailed e) = ParseError"
| "spec_error_of (DeserPubKeyImportFailed e) = Unclassified"
| "spec_error_of (UnmarshalRoleFailed e) = DecodeError"
| "spec_error_of (DifferentMSP a b) = DomainMismatchError"
| "spec_error_of (InvalidRoleType n) = UnknownRoleError"
| "spec_error_of (SerializeFailed e) = Unclassified"
| "spec_error_of IdentitiesDoNotMatch = IdentityMismatchError"
| "spec_error_of (InvalidPrincipalType n) = UnknownPrincipalTypeError"

section \<open>A small instance of the imported functions\<close>

text \<open>
  The concrete instances below run the model on this instance. A PEM block is the byte
  45 followed by its content; a certificate is two bytes, the CA flag and the public key;
  a private key is one byte and its public key is the same byte; a chain verifies when
  there is a root. A configuration is one byte that selects an entry of \<open>ex_conf\<close>. A
  SerializedIdentity is the length of the name, the name and the certificate bytes; an
  MSPRole is the role followed by the name.
\<close>

datatype ex_key = ExPublic byte | ExPrivate byte

definition ex_pem_Decode :: "bytes \<Rightarrow> pem_Block option" where
  "ex_pem_Decode b =
     (case elems b of
        [] \<Rightarrow> None
      | x # xs \<Rightarrow> if x = 45 then Some \<lparr>Type = ''CERTIFICATE'', Bytes = Some xs\<rparr> else None)"

definition ex_pem_EncodeToMemory :: "pem_Block \<Rightarrow> bytes" where
  "ex_pem_EncodeToMemory blk = Some (45 # elems (Bytes blk))"

definition ex_ParseCertificate :: "bytes \<Rightarrow> string + Certificate" where
  "ex_ParseCertificate b =
     (case elems b of
        [ca, k] \<Rightarrow> Inr \<lparr>Raw = Some [ca, k], IsCA = (ca = 1), Subject = [], Issuer = []\<rparr>
      | _ \<Rightarrow> Inl ''malformed certificate'')"

definition ex_KeyImport_X509PublicKey :: "Certificate \<Rightarrow> string + ex_key" where
  "ex_KeyImport_X509PublicKey c =
     (case elems (Raw c) of
        [ca, k] \<Rightarrow> Inr (ExPublic k)
      | _ \<Rightarrow> Inl ''no public key'')"

definition ex_KeyImport_ECDSAPrivateKey :: "bytes \<Rightarrow> string + ex_key" where
  "ex_KeyImport_ECDSAPrivateKey b =
     (case elems b of
        [k] \<Rightarrow> Inr (ExPrivate k)
      | _ \<Rightarrow> Inl ''malformed key'')"

definition ex_CryptoSigner_Init :: "ex_key \<Rightarrow> string + ex_key" where
  "ex_CryptoSigner_Init key =
     (case key of ExPrivate k \<Rightarrow> Inr key | ExPublic k \<Rightarrow> Inl ''not a private key'')"

fun ex_Public :: "ex_key \<Rightarrow> ex_key" where
  "ex_Public (ExPrivate k) = ExPublic k"
| "ex_Public (ExPublic k) = ExPublic k"

definition ex_Certificate_Verify :: "Certificate \<Rightarrow> VerifyOptions \<Rightarrow> string option" where
  "ex_Certificate_Verify c vo =
     (if Roots vo = [] then Some ''certificate signed by unknown authority'' else None)"

definition ex_root :: bytes where "ex_root = Some [45, 1, 7]"
definition ex_member :: bytes where "ex_member = Some [45, 0, 7]"

definition ex_conf :: "byte \<Rightarrow> FabricMSPConfig option" where
  "ex_conf n =
    (if n = 1 then
       Some \<lparr>Name = ''org1'', RootCerts = Some [ex_root], IntermediateCerts = None,
             Admins = None, SigningIdentity = None\<rparr>
     else if n = 2 then
       Some \<lparr>Name = ''org2'', RootCerts = None, IntermediateCerts = None,
             Admins = None, SigningIdentity = None\<rparr>
     else if n = 3 then
       Some \<lparr>Name = ''org1'', RootCerts = None, IntermediateCerts = None,
             Admins = Some [Some [0]], SigningIdentity = None\<rparr>
     else if n = 4 then
       Some \<lparr>Name = ''org1'', RootCerts = Some [ex_root], IntermediateCerts = None,
             Admins = None, SigningIdentity =
               Some \<lparr>PublicSigner = ex_member, PrivateSigner =
                 Some \<lparr>KeyIdentifier = [], KeyMaterial = Some [45, 9]\<rparr>\<rparr>\<rparr>
     else if n = 5 then
       Some \<lparr>Name = ''org1'', RootCerts = Some [ex_root], IntermediateCerts = None,
             Admins = None, SigningIdentity =
               Some \<lparr>PublicSigner = ex_member, PrivateSigner =
                 Some \<lparr>KeyIdentifier = [], KeyMaterial = Some [9]\<rparr>\<rparr>\<rparr>
     else if n = 6 then
       Some \<lparr>Name = ''org1'', RootCerts = Some [ex_root], IntermediateCerts = None,
             Admins = Some [ex_member], SigningIdentity = None\<rparr>
     else if n = 7 then
       Some \<lparr>Name = ''org1'', RootCerts = Some [ex_root], IntermediateCerts = None,
             Admins = None, SigningIdentity =
               Some \<lparr>PublicSigner = ex_root, PrivateSigner =
                 Some \<lparr>KeyIdentifier = [], KeyMaterial = Some [45, 7]\<rparr>\<rparr>\<rparr>
     else None)"

definition ex_Unmarshal_FabricMSPConfig :: "bytes \<Rightarrow> string + FabricMSPConfig" where
  "ex_Unmarshal_FabricMSPConfig b =
     (case elems b of
        [n] \<Rightarrow> (case ex_conf n of Some c \<Rightarrow> Inr c | None \<Rightarrow> Inl ''unknown configuration'')
      | _ \<Rightarrow> Inl ''unexpected EOF'')"

definition byte_of_char :: "char \<Rightarrow> byte" where
  "byte_of_char c = of_nat (of_char c)"

definition char_of_byte :: "byte \<Rightarrow> char" where
  "char_of_byte w = char_of (unat w)"

definition ex_Marshal_SerializedIdentity :: "SerializedIdentity \<Rightarrow> string + bytes" where
  "ex_Marshal_SerializedIdentity sId =
     (if length (Mspid sId) < 256
      then Inr (Some (of_nat (length (Mspid sId)) # map byte_of_char (Mspid sId) @ elems (IdBytes sId)))
      else Inl ''name too long'')"

definition ex_Unmarshal_SerializedIdentity :: "bytes \<Rightarrow> string + SerializedIdentity" where
  "ex_Unmarshal_SerializedIdentity b =
     (case elems b of
        [] \<Rightarrow> Inl ''unexpected EOF''
      | n # rest \<Rightarrow>
          if length rest < unat n then Inl ''unexpected EOF''
          else Inr \<lparr>Mspid = map char_of_byte (take (unat n) rest),
                    IdBytes = Some (drop (unat n) rest)\<rparr>)"

definition ex_Unmarshal_MSPRole :: "bytes \<Rightarrow> string + MSPRole" where
  "ex_Unmarshal_MSPRole b =
     (case elems b of
        [] \<Rightarrow> Inl ''unexpected EOF''
      | r # rest \<Rightarrow>
          Inr \<lparr>MSPIdentifier = map char_of_byte rest,
               Role = (if r = 0 then MSPRole_MEMBER else if r = 1 then MSPRole_ADMIN
                       else MSPRole_other (uint r))\<rparr>)"

definition ex_env :: "(ex_key, ex_key) bccsp_env" where
  "ex_env = \<lparr>pem_Decode = ex_pem_Decode,
     x509_ParseCertificate = ex_ParseCertificate,
     KeyImport_X509PublicKey = ex_KeyImport_X509PublicKey,
     KeyImport_ECDSAPrivateKey = ex_KeyImport_ECDSAPrivateKey,
     CryptoSigner_Init = ex_CryptoSigner_Init,
     Certificate_Verify = ex_Certificate_Verify,
     Unmarshal_FabricMSPConfig = ex_Unmarshal_FabricMSPConfig,
     Unmarshal_SerializedIdentity = ex_Unmarshal_SerializedIdentity,
     Unmarshal_MSPRole = ex_Unmarshal_MSPRole,
     pem_EncodeToMemory = ex_pem_EncodeToMemory,
     Marshal_SerializedIdentity = ex_Marshal_SerializedIdentity\<rparr>"

definition ex_cert :: "byte \<Rightarrow> byte \<Rightarrow> Certificate" where
  "ex_cert ca k = \<lparr>Raw = Some [ca, k], IsCA = (ca = 1), Subject = [], Issuer = []\<rparr>"

definition ex_store :: "(ex_key, ex_key) bccspmsp" where
  "ex_store = \<lparr>rootCerts = Some [X509Identity
        \<lparr>id_of = \<lparr>Mspid_of = ''org1'', Id_of = ''IDENTITY''\<rparr>, cert = ex_cert 1 7,
         pk = ExPublic 7\<rparr>],
     intermediateCerts = Some [], signer = None, admins = None, name = ''org1'',
     opts = Some \<lparr>Roots = [ex_cert 1 7], Intermediates = []\<rparr>\<rparr>"

definition ex_wire :: "string \<Rightarrow> byte list \<Rightarrow> bytes" where
  "ex_wire nm bs = Some (of_nat (length nm) # map byte_of_char nm @ bs)"

definition ex_identity :: "string \<Rightarrow> byte \<Rightarrow> (ex_key, ex_key) Identity" where
  "ex_identity nm ca = X509Identity \<lparr>id_of = \<lparr>Mspid_of = nm, Id_of = ''DEFAULT''\<rparr>,
     cert = ex_cert ca 7, pk = ExPublic 7\<rparr>"

definition ex_role :: "byte \<Rightarrow> string \<Rightarrow> MSPPrincipal" where
  "ex_role r nm = \<lparr>PrincipalClassification = MSPPrincipal_ROLE,
     Principal = Some (r # map byte_of_char nm)\<rparr>"

definition ex_org_unit :: MSPPrincipal where
  "ex_org_unit = \<lparr>PrincipalClassification = MSPPrincipal_ORGANIZATION_UNIT,
     Principal = Some []\<rparr>"

definition ex_signing_store :: "(ex_key, ex_key) bccspmsp" where
  "ex_signing_store = ex_store\<lparr>signer := Some \<lparr>id_of = \<lparr>Mspid_of = ''org1'', Id_of = ''DEFAULT''\<rparr>,
        cert = ex_cert 0 7, pk = ExPublic 7, sid_signer = ExPrivate 9\<rparr>\<rparr>"

definition ex_root_identity :: "ex_key identity" where
  "ex_root_identity = \<lparr>id_of = \<lparr>Mspid_of = ''org1'', Id_of = ''IDENTITY''\<rparr>,
     cert = ex_cert 1 7, pk = ExPublic 7\<rparr>"

definition ex_member_identity :: "ex_key identity" where
  "ex_member_identity = \<lparr>id_of = \<lparr>Mspid_of = ''org1'', Id_of = ''DEFAULT''\<rparr>,
     cert = ex_cert 0 7, pk = ExPublic 7\<rparr>"

definition ex_admin_identity :: "ex_key identity" where
  "ex_admin_identity = \<lparr>id_of = \<lparr>Mspid_of = ''org1'', Id_of = ''IDENTITY''\<rparr>,
     cert = ex_cert 0 7, pk = ExPublic 7\<rparr>"

definition ex_admin_store :: "(ex_key, ex_key) bccspmsp" where
  "ex_admin_store = ex_store\<lparr>admins := Some [X509Identity ex_admin_identity]\<rparr>"

definition ex_ca_signer :: "(ex_key, ex_key) signingidentity" where
  "ex_ca_signer = \<lparr>id_of = \<lparr>Mspid_of = ''org1'', Id_of = ''DEFAULT''\<rparr>,
     cert = ex_cert 1 7, pk = ExPublic 7, sid_signer = ExPrivate 7\<rparr>"

definition ex_ca_signer_store :: "(ex_key, ex_key) bccspmsp" where
  "ex_ca_signer_store = ex_store\<lparr>signer := Some ex_ca_signer\<rparr>"

section \<open>Lemmas about the model\<close>

lemma char_of_byte_of_char: "char_of_byte (byte_of_char c) = c"
  by (simp add: char_of_byte_def byte_of_char_def unat_of_nat)

lemma getIdentityFromConf_Inr:
  assumes "getIdentityFromConf env msp b = Inr x"
  shows "\<exists>c k. x = X509Identity \<lparr>id_of = \<lparr>Mspid_of = name msp, Id_of = ''IDENTITY''\<rparr>, cert = c, pk = k\<rparr>"
  using assms
  by (auto simp: getIdentityFromConf_def newIdentity_def split: if_splits option.splits sum.splits)

lemma fill_identities_length:
  "length (snd (fill_identities env msp bs i ids)) = length ids"
  by (induction bs arbitrary: i ids) (auto split: sum.splits)

lemma fill_identities_all_ok:
  "\<forall>b \<in> set bs. \<exists>x. getIdentityFromConf env msp b = Inr x \<Longrightarrow>
     fst (fill_identities env msp bs i ids) = None"
  by (induction bs arbitrary: i ids) (auto split: sum.splits)

lemma setup_admins_fields:
  assumes "setup_admins env m conf = (r, m')"
  shows "rootCerts m' = rootCerts m \<and> intermediateCerts m' = intermediateCerts m \<and>
         signer m' = signer m \<and> name m' = name m \<and> opts m' = opts m"
  using assms by (auto simp: setup_admins_def split: option.splits prod.splits)

lemma setup_roots_fields:
  assumes "setup_roots env m conf = (r, m')"
  shows "admins m' = admins m \<and> intermediateCerts m' = intermediateCerts m \<and>
         signer m' = signer m \<and> name m' = name m \<and> opts m' = opts m"
  using assms by (auto simp: setup_roots_def split: if_splits prod.splits)

lemma setup_intermediates_fields:
  assumes "setup_intermediates env m conf = (r, m')"
  shows "admins m' = admins m \<and> rootCerts m' = rootCerts m \<and>
         signer m' = signer m \<and> name m' = name m \<and> opts m' = opts m"
  using assms by (auto simp: setup_intermediates_def split: option.splits prod.splits)

lemma setup_signer_fields:
  assumes "setup_signer env m conf = (r, m')"
  shows "admins m' = admins m \<and> rootCerts m' = rootCerts m \<and>
         intermediateCerts m' = intermediateCerts m \<and> name m' = name m \<and> opts m' = opts m"
  using assms by (auto simp: setup_signer_def split: option.splits result.splits)

lemma setup_signer_not_Ok:
  assumes "setup_signer env m conf = (r, m')" and "r \<noteq> Ok ()"
  shows "m' = m"
  using assms by (auto simp: setup_signer_def split: option.splits result.splits)

lemma setup_opts_not_Err: "fst (setup_opts m) \<noteq> Err e"
  by (auto simp: setup_opts_def split: option.splits prod.splits)

lemma setup_roots_no_roots:
  "len (RootCerts conf) = 0 \<Longrightarrow> setup_roots env m conf = (Some NoRootCerts, m)"
  by (simp add: setup_roots_def)

text \<open>A run of Setup that reached the configuration, in terms of its stages.\<close>

lemma Setup_run:
  assumes "Unmarshal_FabricMSPConfig env (Config c1) = Inr conf"
    and "setup_admins env (msp\<lparr>name := Name conf\<rparr>) conf = (r2, m2)"
    and "setup_roots env m2 conf = (r3, m3)"
    and "setup_intermediates env m3 conf = (r4, m4)"
    and "setup_signer env m4 conf = (r5, m5)"
  shows "Setup env msp (Some c1) =
       (case r2 of Some e \<Rightarrow> (Err e, m2) | None \<Rightarrow>
         (case r3 of Some e \<Rightarrow> (Err e, m3) | None \<Rightarrow>
           (case r4 of Some e \<Rightarrow> (Err e, m4) | None \<Rightarrow>
             (case r5 of Err e \<Rightarrow> (Err e, m5) | Panic p \<Rightarrow> (Panic p, m5)
                | Ok u \<Rightarrow> setup_opts m5))))"
  using assms by (simp add: Setup_def split: option.splits result.splits)

lemma fill_identities_ok:
  "fst (fill_identities env msp bs i ids) = None \<Longrightarrow> i + length bs \<le> length ids \<Longrightarrow>
     (\<forall>j < length bs. getIdentityFromConf env msp (bs ! j)
         = Inr (snd (fill_identities env msp bs i ids) ! (i + j))) \<and>
     (\<forall>j < i. snd (fill_identities env msp bs i ids) ! j = ids ! j)"
proof (induction bs arbitrary: i ids)
  case Nil
  then show ?case by simp
next
  case (Cons b bs)
  from Cons.prems(1) obtain x where x: "getIdentityFromConf env msp b = Inr x"
    by (auto split: sum.splits)
  let ?res = "snd (fill_identities env msp bs (Suc i) (ids[i := x]))"
  from Cons.prems x have ok: "fst (fill_identities env msp bs (Suc i) (ids[i := x])) = None"
    and len: "Suc i + length bs \<le> length (ids[i := x])"
    by simp_all
  note ih = Cons.IH [OF ok len]
  from ih have here: "?res ! i = x"
    using Cons.prems(2) by simp
  have "getIdentityFromConf env msp ((b # bs) ! j) = Inr (?res ! (i + j))"
    if "j < length (b # bs)" for j
  proof (cases j)
    case 0
    with x here show ?thesis by simp
  next
    case (Suc j')
    with that ih show ?thesis by simp
  qed
  moreover have "?res ! j = ids ! j" if "j < i" for j
    using ih that by simp
  ultimately show ?case using x by simp
qed

lemma setup_roots_None:
  assumes "setup_roots env m conf = (None, m')"
  shows "\<exists>ids. rootCerts m' = Some ids \<and> length ids = len (RootCerts conf) \<and> ids \<noteq> [] \<and>
           (\<forall>j < length ids. getIdentityFromConf env m (elems (RootCerts conf) ! j)
              = Inr (ids ! j))"
proof -
  let ?bs = "elems (RootCerts conf)"
  let ?run = "fill_identities env m ?bs 0 (make_identities (len (RootCerts conf)))"
  have l: "length ?bs = len (RootCerts conf)" by (cases "RootCerts conf") simp_all
  from assms have nz: "len (RootCerts conf) \<noteq> 0" and ok: "fst ?run = None"
    and m': "rootCerts m' = Some (snd ?run)"
    by (auto simp: setup_roots_def split: if_splits prod.splits)
  have len: "length (snd ?run) = len (RootCerts conf)"
    by (simp add: fill_identities_length make_identities_def)
  have "0 + length ?bs \<le> length (make_identities (len (RootCerts conf)) :: ('a, 'b) Identity list)"
    by (simp add: make_identities_def l)
  from fill_identities_ok [OF ok this] l len
  have "\<forall>j < length (snd ?run). getIdentityFromConf env m (?bs ! j) = Inr (snd ?run ! j)"
    by simp
  with m' len nz show ?thesis by auto
qed

lemma setup_opts_fields:
  assumes "setup_opts m = (r, m')"
  shows "admins m' = admins m \<and> rootCerts m' = rootCerts m \<and>
         intermediateCerts m' = intermediateCerts m \<and> name m' = name m \<and>
         signer m' = signer m \<and> opts m' \<noteq> None"
  using assms by (auto simp: setup_opts_def split: option.splits prod.splits)

lemma Setup_Ok_stages:
  assumes "Setup env msp conf1 = (Ok (), msp')"
  obtains c1 conf m2 m3 m4 m5 where "conf1 = Some c1"
    and "Unmarshal_FabricMSPConfig env (Config c1) = Inr conf"
    and "setup_admins env (msp\<lparr>name := Name conf\<rparr>) conf = (None, m2)"
    and "setup_roots env m2 conf = (None, m3)"
    and "setup_intermediates env m3 conf = (None, m4)"
    and "setup_signer env m4 conf = (Ok (), m5)"
    and "setup_opts m5 = (Ok (), msp')"
  using assms
  by (auto simp: Setup_def split: option.splits sum.splits prod.splits result.splits)

lemma getSigningIdentityFromConf_Ok:
  assumes "getSigningIdentityFromConf env m (Some si) = Ok sid"
  shows "\<exists>pemCert c k ki pemKey key s.
           pem_Decode env (PublicSigner si) = Some pemCert \<and>
           x509_ParseCertificate env (Bytes pemCert) = Inr c \<and>
           KeyImport_X509PublicKey env c = Inr k \<and>
           PrivateSigner si = Some ki \<and>
           pem_Decode env (KeyMaterial ki) = Some pemKey \<and>
           KeyImport_ECDSAPrivateKey env (Bytes pemKey) = Inr key \<and>
           CryptoSigner_Init env key = Inr s \<and>
           sid = \<lparr>id_of = \<lparr>Mspid_of = name m, Id_of = ''DEFAULT''\<rparr>, cert = c, pk = k,
                  sid_signer = s\<rparr>"
  using assms
  by (auto simp: getSigningIdentityFromConf_def getIdentityFromConf_def newIdentity_def
      newSigningIdentity_def split: if_splits option.splits sum.splits)

lemma fill_identities_first_error:
  "fst (fill_identities env msp bs i ids) = Some e \<Longrightarrow>
     \<exists>j < length bs. getIdentityFromConf env msp (bs ! j) = Inl e \<and>
        (\<forall>j' < j. \<exists>x. getIdentityFromConf env msp (bs ! j') = Inr x)"
proof (induction bs arbitrary: i ids)
  case Nil
  then show ?case by simp
next
  case (Cons b bs)
  show ?case
  proof (cases "getIdentityFromConf env msp b")
    case (Inl e')
    with Cons.prems have "e' = e" by simp
    with Inl have "getIdentityFromConf env msp ((b # bs) ! 0) = Inl e" by simp
    then show ?thesis by blast
  next
    case (Inr x)
    with Cons.prems have "fst (fill_identities env msp bs (Suc i) (ids[i := x])) = Some e"
      by simp
    from Cons.IH [OF this] obtain j where j: "j < length bs"
      and je: "getIdentityFromConf env msp (bs ! j) = Inl e"
      and jb: "\<forall>j' < j. \<exists>x. getIdentityFromConf env msp (bs ! j') = Inr x"
      by blast
    have "\<exists>y. getIdentityFromConf env msp ((b # bs) ! j') = Inr y" if "j' < Suc j" for j'
      using that Inr jb by (cases j') auto
    with j je show ?thesis
      by (intro exI [of _ "Suc j"]) simp
  qed
qed

lemma setup_admins_result:
  assumes "setup_admins env m conf = (r, m')"
  shows "if \<forall>b \<in> set (elems (Admins conf)). \<exists>x. getIdentityFromConf env m b = Inr x
         then r = None
         else \<exists>e j. r = Some e \<and> j < len (Admins conf) \<and>
                getIdentityFromConf env m (elems (Admins conf) ! j) = Inl e \<and>
                (\<forall>j' < j. \<exists>x. getIdentityFromConf env m (elems (Admins conf) ! j') = Inr x)"
proof (cases "Admins conf")
  case None
  with assms show ?thesis by (simp add: setup_admins_def)
next
  case (Some blobs)
  let ?run = "fill_identities env m blobs 0 (make_identities (length blobs))"
  from assms Some have r: "r = fst ?run"
    by (auto simp: setup_admins_def split: prod.splits)
  show ?thesis
  proof (cases "\<forall>b \<in> set blobs. \<exists>x. getIdentityFromConf env m b = Inr x")
    case True
    with fill_identities_all_ok [of blobs env m] r Some show ?thesis by simp
  next
    case False
    then obtain b where "b \<in> set blobs" and "\<forall>x. getIdentityFromConf env m b \<noteq> Inr x"
      by blast
    have "r \<noteq> None"
    proof
      assume "r = None"
      with r have ok: "fst ?run = None" by simp
      have "0 + length blobs \<le> length (make_identities (length blobs) :: ('a, 'b) Identity list)"
        by (simp add: make_identities_def)
      from fill_identities_ok [OF ok this]
      have "\<forall>j < length blobs. \<exists>x. getIdentityFromConf env m (blobs ! j) = Inr x" by simp
      with \<open>b \<in> set blobs\<close> \<open>\<forall>x. getIdentityFromConf env m b \<noteq> Inr x\<close> show False
        by (metis in_set_conv_nth)
    qed
    then obtain e where e: "r = Some e" by blast
    with r have "fst ?run = Some e" by simp
    from fill_identities_first_error [OF this] e False Some show ?thesis by auto
  qed
qed

lemma Setup_no_roots:
  assumes u: "Unmarshal_FabricMSPConfig env (Config c1) = Inr conf"
    and z: "len (RootCerts conf) = 0"
  shows "\<exists>e msp'. Setup env msp (Some c1) = (Err e, msp') \<and>
        rootCerts msp' = rootCerts msp \<and> intermediateCerts msp' = intermediateCerts msp \<and>
        signer msp' = signer msp \<and> opts msp' = opts msp \<and> name msp' = Name conf \<and>
        (if \<forall>b \<in> set (elems (Admins conf)).
              \<exists>x. getIdentityFromConf env (msp\<lparr>name := Name conf\<rparr>) b = Inr x
         then e = NoRootCerts
         else \<exists>j < len (Admins conf).
                getIdentityFromConf env (msp\<lparr>name := Name conf\<rparr>) (elems (Admins conf) ! j)
                  = Inl e \<and>
                (\<forall>j' < j. \<exists>x. getIdentityFromConf env (msp\<lparr>name := Name conf\<rparr>)
                    (elems (Admins conf) ! j') = Inr x))"
proof -
  obtain r2 m2 where a: "setup_admins env (msp\<lparr>name := Name conf\<rparr>) conf = (r2, m2)"
    by force
  obtain r4 m4 where c: "setup_intermediates env m2 conf = (r4, m4)" by force
  obtain r5 m5 where d: "setup_signer env m4 conf = (r5, m5)" by force
  have run: "Setup env msp (Some c1) =
      (case r2 of Some e \<Rightarrow> (Err e, m2) | None \<Rightarrow> (Err NoRootCerts, m2))"
    using Setup_run [OF u a setup_roots_no_roots [OF z] c d] by (simp split: option.splits)
  note f = setup_admins_fields [OF a] and res = setup_admins_result [OF a]
  show ?thesis
  proof (cases r2)
    case None
    with run f res show ?thesis by (auto split: if_splits)
  next
    case (Some e)
    with run f res show ?thesis by (auto split: if_splits)
  qed
qed

lemma getIdentityFromConf_name:
  "name m = name m' \<Longrightarrow> getIdentityFromConf env m b = getIdentityFromConf env m' b"
  by (simp add: getIdentityFromConf_def split: option.splits sum.splits)

lemma Validate_opts:
  "opts m = opts m' \<Longrightarrow> Validate env m ident = Validate env m' ident"
  by (cases ident) (simp_all add: Validate_def)

lemma Validate_no_opts:
  "opts m = None \<Longrightarrow> Validate env m ident \<noteq> Ok ()"
  by (simp add: Validate_def split: Identity.splits)

lemma Setup_Ok_roots:
  assumes "Setup env msp conf1 = (Ok (), msp')"
  shows "\<exists>c1 conf ids. conf1 = Some c1 \<and>
           Unmarshal_FabricMSPConfig env (Config c1) = Inr conf \<and>
           rootCerts msp' = Some ids \<and> ids \<noteq> [] \<and>
           length ids = len (RootCerts conf) \<and>
           (\<forall>j < length ids.
              getIdentityFromConf env (msp\<lparr>name := Name conf\<rparr>) (elems (RootCerts conf) ! j)
                = Inr (ids ! j)) \<and>
           (\<forall>x \<in> set ids. \<exists>i. x = X509Identity i)"
proof -
  from assms obtain c1 conf m2 m3 m4 m5 where c: "conf1 = Some c1"
    and u: "Unmarshal_FabricMSPConfig env (Config c1) = Inr conf"
    and a: "setup_admins env (msp\<lparr>name := Name conf\<rparr>) conf = (None, m2)"
    and r: "setup_roots env m2 conf = (None, m3)"
    and i: "setup_intermediates env m3 conf = (None, m4)"
    and s: "setup_signer env m4 conf = (Ok (), m5)"
    and p: "setup_opts m5 = (Ok (), msp')"
    by (rule Setup_Ok_stages)
  from setup_admins_fields [OF a] have n: "name m2 = name (msp\<lparr>name := Name conf\<rparr>)"
    by simp
  from setup_roots_None [OF r] obtain ids where ids: "rootCerts m3 = Some ids" "ids \<noteq> []"
    and l: "length ids = len (RootCerts conf)"
    and each: "\<forall>j < length ids. getIdentityFromConf env m2 (elems (RootCerts conf) ! j)
              = Inr (ids ! j)"
    by blast
  from each getIdentityFromConf_name [OF n]
  have each': "\<forall>j < length ids.
      getIdentityFromConf env (msp\<lparr>name := Name conf\<rparr>) (elems (RootCerts conf) ! j)
        = Inr (ids ! j)"
    by simp
  have x: "\<exists>i. x = X509Identity i" if "x \<in> set ids" for x
  proof -
    from that obtain j where "j < length ids" "ids ! j = x" by (auto simp: in_set_conv_nth)
    with each have "getIdentityFromConf env m2 (elems (RootCerts conf) ! j) = Inr x" by auto
    from getIdentityFromConf_Inr [OF this] show ?thesis by blast
  qed
  have "rootCerts msp' = rootCerts m3"
    using setup_intermediates_fields [OF i] setup_signer_fields [OF s] setup_opts_fields [OF p]
    by simp
  with c u ids l each' x show ?thesis by auto
qed

subsection \<open>Runs of the small instance\<close>

lemmas ex_simps = ex_env_def ex_Unmarshal_FabricMSPConfig_def ex_conf_def ex_root_def
  ex_member_def ex_pem_Decode_def ex_ParseCertificate_def ex_KeyImport_X509PublicKey_def
  ex_KeyImport_ECDSAPrivateKey_def ex_CryptoSigner_Init_def ex_Certificate_Verify_def
  ex_Unmarshal_SerializedIdentity_def ex_Unmarshal_MSPRole_def ex_pem_EncodeToMemory_def
  ex_Marshal_SerializedIdentity_def

lemmas setup_simps = Setup_def setup_admins_def setup_roots_def setup_intermediates_def
  setup_signer_def setup_opts_def getIdentityFromConf_def getSigningIdentityFromConf_def
  newIdentity_def newSigningIdentity_def make_identities_def NewBccspMsp_def AddCert_def

lemma ex_Setup_1: "Setup ex_env NewBccspMsp (Some \<lparr>Config = Some [1]\<rparr>) = (Ok (), ex_store)"
  by (simp add: ex_simps setup_simps ex_store_def ex_cert_def)

lemma ex_Setup_2: "Setup ex_env NewBccspMsp (Some \<lparr>Config = Some [2]\<rparr>) =
    (Err NoRootCerts, NewBccspMsp\<lparr>name := ''org2''\<rparr>)"
  by (simp add: ex_simps setup_simps)

lemma ex_Setup_3: "Setup ex_env NewBccspMsp (Some \<lparr>Config = Some [3]\<rparr>) =
    (Err PemDecodeFailed, NewBccspMsp\<lparr>name := ''org1'', admins := Some [NilIdentity]\<rparr>)"
  by (simp add: ex_simps setup_simps)

lemma ex_Setup_4: "Setup ex_env NewBccspMsp (Some \<lparr>Config = Some [4]\<rparr>) =
    (Ok (), ex_store\<lparr>signer := Some \<lparr>id_of = \<lparr>Mspid_of = ''org1'', Id_of = ''DEFAULT''\<rparr>,
        cert = ex_cert 0 7, pk = ExPublic 7, sid_signer = ExPrivate 9\<rparr>\<rparr>)"
  by (simp add: ex_simps setup_simps ex_store_def ex_cert_def)

lemma ex_Setup_5: "Setup ex_env NewBccspMsp (Some \<lparr>Config = Some [5]\<rparr>) =
    (Panic NilPointerDereference, NewBccspMsp\<lparr>name := ''org1'',
       rootCerts := rootCerts ex_store, intermediateCerts := Some []\<rparr>)"
  by (simp add: ex_simps setup_simps ex_store_def ex_cert_def)

lemma ex_Setup_unknown: "Setup ex_env NewBccspMsp (Some \<lparr>Config = Some [0]\<rparr>) =
    (Err (UnmarshalConfFailed ''unknown configuration''), NewBccspMsp)"
  by (simp add: ex_simps setup_simps)

lemma ex_Setup_None: "Setup ex_env NewBccspMsp None = (Err NilConf, NewBccspMsp)"
  by (simp add: Setup_def)

lemma ex_Setup_admin:
  "Setup ex_env NewBccspMsp (Some \<lparr>Config = Some [6]\<rparr>) = (Ok (), ex_admin_store)"
  by (simp add: ex_simps setup_simps ex_admin_store_def ex_admin_identity_def ex_store_def
      ex_cert_def)

lemma ex_Unmarshal_wire:
  "length nm < 256 \<Longrightarrow>
   ex_Unmarshal_SerializedIdentity (ex_wire nm bs) = Inr \<lparr>Mspid = nm, IdBytes = Some bs\<rparr>"
  by (simp add: ex_Unmarshal_SerializedIdentity_def ex_wire_def unat_of_nat comp_def
      char_of_byte_of_char)

lemma ex_env_sel:
  "pem_Decode ex_env = ex_pem_Decode"
  "x509_ParseCertificate ex_env = ex_ParseCertificate"
  "KeyImport_X509PublicKey ex_env = ex_KeyImport_X509PublicKey"
  "KeyImport_ECDSAPrivateKey ex_env = ex_KeyImport_ECDSAPrivateKey"
  "CryptoSigner_Init ex_env = ex_CryptoSigner_Init"
  "Certificate_Verify ex_env = ex_Certificate_Verify"
  "Unmarshal_FabricMSPConfig ex_env = ex_Unmarshal_FabricMSPConfig"
  "Unmarshal_SerializedIdentity ex_env = ex_Unmarshal_SerializedIdentity"
  "Unmarshal_MSPRole ex_env = ex_Unmarshal_MSPRole"
  "pem_EncodeToMemory ex_env = ex_pem_EncodeToMemory"
  "Marshal_SerializedIdentity ex_env = ex_Marshal_SerializedIdentity"
  by (simp_all add: ex_env_def)

lemma ex_store_sel:
  "name ex_store = ''org1''"
  "opts ex_store = Some \<lparr>Roots = [ex_cert 1 7], Intermediates = []\<rparr>"
  by (simp_all add: ex_store_def)

lemma ex_Unmarshal_role:
  "Unmarshal_MSPRole ex_env (Principal (ex_role r nm)) =
     Inr \<lparr>MSPIdentifier = nm,
          Role = (if r = 0 then MSPRole_MEMBER else if r = 1 then MSPRole_ADMIN
                  else MSPRole_other (uint r))\<rparr>"
  by (simp add: ex_env_sel ex_Unmarshal_MSPRole_def ex_role_def comp_def char_of_byte_of_char)

lemma ex_principal_class:
  "PrincipalClassification (ex_role r nm) = MSPPrincipal_ROLE"
  "PrincipalClassification ex_org_unit = MSPPrincipal_ORGANIZATION_UNIT"
  by (simp_all add: ex_role_def ex_org_unit_def)

lemma ex_identity_msp: "GetMSPIdentifier (ex_identity nm ca) = Some nm"
  by (simp add: ex_identity_def)

lemma ex_Setup_signing: "Setup ex_env NewBccspMsp (Some \<lparr>Config = Some [4]\<rparr>) = (Ok (), ex_signing_store)"
  by (simp add: ex_Setup_4 ex_signing_store_def)

lemma ex_Unmarshal_conf_4:
  "Unmarshal_FabricMSPConfig ex_env (Config \<lparr>Config = Some [4]\<rparr>) =
     Inr \<lparr>Name = ''org1'', RootCerts = Some [ex_root], IntermediateCerts = None,
          Admins = None, SigningIdentity =
            Some \<lparr>PublicSigner = ex_member, PrivateSigner =
              Some \<lparr>KeyIdentifier = [], KeyMaterial = Some [45, 9]\<rparr>\<rparr>\<rparr>"
  by (simp add: ex_env_sel ex_Unmarshal_FabricMSPConfig_def ex_conf_def)

lemma ex_Unmarshal_conf_2:
  "Unmarshal_FabricMSPConfig ex_env (Config \<lparr>Config = Some [2]\<rparr>) =
     Inr \<lparr>Name = ''org2'', RootCerts = None, IntermediateCerts = None,
          Admins = None, SigningIdentity = None\<rparr>"
  by (simp add: ex_env_sel ex_Unmarshal_FabricMSPConfig_def ex_conf_def)

lemma ex_Unmarshal_conf_3:
  "Unmarshal_FabricMSPConfig ex_env (Config \<lparr>Config = Some [3]\<rparr>) =
     Inr \<lparr>Name = ''org1'', RootCerts = None, IntermediateCerts = None,
          Admins = Some [Some [0]], SigningIdentity = None\<rparr>"
  by (simp add: ex_env_sel ex_Unmarshal_FabricMSPConfig_def ex_conf_def)

lemma ex_store_roots: "rootCerts ex_store = Some [X509Identity ex_root_identity]"
  by (simp add: ex_store_def ex_root_identity_def)

lemma ex_serialize:
  "serialize_identity ex_env \<lparr>id_of = \<lparr>Mspid_of = ''org1'', Id_of = l\<rparr>, cert = ex_cert ca k,
      pk = pub\<rparr> = Inr (ex_wire ''org1'' [45, ca, k])"
  by (simp add: serialize_identity_def ex_env_sel ex_Marshal_SerializedIdentity_def
      ex_pem_EncodeToMemory_def ex_cert_def ex_wire_def)

lemma ex_deserialize:
  "name m = ''org1'' \<Longrightarrow>
   DeserializeIdentity ex_env m (ex_wire ''org1'' [45, ca, k])
     = Inr (X509Identity \<lparr>id_of = \<lparr>Mspid_of = ''org1'', Id_of = ''DEFAULT''\<rparr>,
              cert = ex_cert ca k, pk = ExPublic k\<rparr>)"
  by (simp add: DeserializeIdentity_def deserializeIdentityInternal_def ex_env_sel
      ex_Unmarshal_wire ex_pem_Decode_def ex_ParseCertificate_def
      ex_KeyImport_X509PublicKey_def newIdentity_def ex_cert_def)

lemma ex_admin_store_sel:
  "name ex_admin_store = ''org1''"
  "opts ex_admin_store = Some \<lparr>Roots = [ex_cert 1 7], Intermediates = []\<rparr>"
  "admins ex_admin_store = Some [X509Identity ex_admin_identity]"
  by (simp_all add: ex_admin_store_def ex_store_def)

lemma ex_Validate_admin:
  "Validate ex_env ex_admin_store (X509Identity ex_admin_identity) = Ok ()"
  by (simp add: Validate_def ex_admin_store_sel ex_admin_identity_def ex_cert_def ex_env_sel
      ex_Certificate_Verify_def)

lemma ex_Setup_rename: "Setup ex_env ex_store (Some \<lparr>Config = Some [2]\<rparr>) =
    (Err NoRootCerts, ex_store\<lparr>name := ''org2''\<rparr>)"
  by (simp add: ex_simps setup_simps)

lemma ex_Validate_renamed:
  "Validate ex_env (ex_store\<lparr>name := ''org2''\<rparr>) (ex_identity ''org2'' 0) = Ok ()"
  by (simp add: Validate_def ex_identity_def ex_store_def ex_cert_def ex_env_sel
      ex_Certificate_Verify_def)

lemma ex_Setup_ca_signer:
  "Setup ex_env NewBccspMsp (Some \<lparr>Config = Some [7]\<rparr>) = (Ok (), ex_ca_signer_store)"
  by (simp add: ex_simps setup_simps ex_ca_signer_store_def ex_ca_signer_def ex_store_def
      ex_cert_def)

lemma ex_ca_signer_store_sel:
  "opts ex_ca_signer_store = Some \<lparr>Roots = [ex_cert 1 7], Intermediates = []\<rparr>"
  "signer ex_ca_signer_store = Some ex_ca_signer"
  by (simp_all add: ex_ca_signer_store_def ex_store_def)

lemma ex_Unmarshal_conf_1:
  "Unmarshal_FabricMSPConfig ex_env (Config \<lparr>Config = Some [1]\<rparr>) =
     Inr \<lparr>Name = ''org1'', RootCerts = Some [ex_root], IntermediateCerts = None,
          Admins = None, SigningIdentity = None\<rparr>"
  by (simp add: ex_env_sel ex_Unmarshal_FabricMSPConfig_def ex_conf_def)

lemma ex_ingest_root:
  "getIdentityFromConf ex_env (NewBccspMsp\<lparr>name := ''org1''\<rparr>) ex_root
     = Inr (X509Identity ex_root_identity)"
  by (simp add: getIdentityFromConf_def ex_env_sel ex_root_def ex_pem_Decode_def
      ex_ParseCertificate_def ex_KeyImport_X509PublicKey_def newIdentity_def
      ex_root_identity_def ex_cert_def)

section \<open>Properties\<close>

subsection \<open>The unimplemented branches of SatisfiesPrincipal\<close>

text \<open>
  Claim C1, as amended. For every identity, an ORGANIZATION_UNIT principal, and a ROLE
  principal that decodes to the role ADMIN with the name of the store, end
  SatisfiesPrincipal in the panic "Not yet implemented": no success and no error value is
  returned. A ROLE principal that decodes to ADMIN with another name gets the
  different-MSP error (a nil identity panics there) before the role is looked at. In no
  case is success returned.
\<close>

theorem SatisfiesPrincipal_unimplemented:
  "(PrincipalClassification p = MSPPrincipal_ORGANIZATION_UNIT \<longrightarrow>
      SatisfiesPrincipal env msp ident (Some p) = Panic NotYetImplemented) \<and>
   (PrincipalClassification p = MSPPrincipal_ROLE \<and>
    Unmarshal_MSPRole env (Principal p) = Inr r \<and> Role r = MSPRole_ADMIN \<longrightarrow>
      SatisfiesPrincipal env msp ident (Some p) \<noteq> Ok () \<and>
      (MSPIdentifier r = name msp \<longrightarrow>
         SatisfiesPrincipal env msp ident (Some p) = Panic NotYetImplemented) \<and>
      (MSPIdentifier r \<noteq> name msp \<longrightarrow>
         SatisfiesPrincipal env msp ident (Some p) =
           (case GetMSPIdentifier ident of
              None \<Rightarrow> Panic NilPointerDereference
            | Some got \<Rightarrow> Err (DifferentMSP (MSPIdentifier r) got))))"
  by (auto simp: SatisfiesPrincipal_def split: option.splits)

text \<open>Claim C1 as stated fails: the outcome is a panic, not an error value, for an
  ORGANIZATION_UNIT principal and for an ADMIN role of the store's own name; for an ADMIN
  role of another name it is the different-MSP error.\<close>

theorem SatisfiesPrincipal_panics_counterexample:
  "SatisfiesPrincipal ex_env ex_store (ex_identity ''org1'' 0) (Some ex_org_unit)
     = Panic NotYetImplemented \<and>
   SatisfiesPrincipal ex_env ex_store (ex_identity ''org1'' 0) (Some (ex_role 1 ''org1''))
     = Panic NotYetImplemented \<and>
   SatisfiesPrincipal ex_env ex_store (ex_identity ''org1'' 0) (Some (ex_role 1 ''org2''))
     = Err (DifferentMSP ''org2'' ''org1'')"
  by (simp add: SatisfiesPrincipal_def ex_Unmarshal_role ex_store_sel ex_principal_class
      ex_identity_msp)

theorem SatisfiesPrincipal_unimplemented_witness:
  "PrincipalClassification ex_org_unit = MSPPrincipal_ORGANIZATION_UNIT \<and>
   SatisfiesPrincipal ex_env ex_store (ex_identity ''org1'' 0) (Some ex_org_unit)
     = Panic NotYetImplemented \<and>
   PrincipalClassification (ex_role 1 ''org1'') = MSPPrincipal_ROLE \<and>
   Unmarshal_MSPRole ex_env (Principal (ex_role 1 ''org1''))
     = Inr \<lparr>MSPIdentifier = ''org1'', Role = MSPRole_ADMIN\<rparr> \<and>
   ''org1'' = name ex_store \<and>
   SatisfiesPrincipal ex_env ex_store (ex_identity ''org1'' 0) (Some (ex_role 1 ''org1''))
     = Panic NotYetImplemented \<and>
   Unmarshal_MSPRole ex_env (Principal (ex_role 1 ''org2''))
     = Inr \<lparr>MSPIdentifier = ''org2'', Role = MSPRole_ADMIN\<rparr> \<and>
   ''org2'' \<noteq> name ex_store \<and>
   SatisfiesPrincipal ex_env ex_store (ex_identity ''org1'' 0) (Some (ex_role 1 ''org2''))
     = Err (DifferentMSP ''org2'' ''org1'')"
proof -
  have c1: "PrincipalClassification ex_org_unit = MSPPrincipal_ORGANIZATION_UNIT"
    by (simp add: ex_org_unit_def)
  have c2: "PrincipalClassification (ex_role 1 nm) = MSPPrincipal_ROLE" for nm
    by (simp add: ex_role_def)
  have u: "Unmarshal_MSPRole ex_env (Principal (ex_role 1 nm))
     = Inr \<lparr>MSPIdentifier = nm, Role = MSPRole_ADMIN\<rparr>" for nm
    by (simp add: ex_Unmarshal_role)
  have g: "GetMSPIdentifier (ex_identity ''org1'' 0) = Some ''org1''"
    by (simp add: ex_identity_def)
  note t = SatisfiesPrincipal_unimplemented [where env = ex_env and msp = ex_store
      and ident = "ex_identity ''org1'' 0"]
  from t [of ex_org_unit] t [of "ex_role 1 ''org1''" "\<lparr>MSPIdentifier = ''org1'', Role = MSPRole_ADMIN\<rparr>"]
    t [of "ex_role 1 ''org2''" "\<lparr>MSPIdentifier = ''org2'', Role = MSPRole_ADMIN\<rparr>"]
    c1 c2 u g
  show ?thesis by (simp add: ex_store_sel)
qed

subsection \<open>Validate rejects a CA certificate\<close>

text \<open>
  Claim C4, as amended. Let the verification options of the store be set (Setup has
  completed). Validate of an identity of the type \<open>identity\<close> whose certificate has the
  CA flag fails with the error "A CA certificate cannot be used directly by this MSP".
  Validate of a signing identity fails with "Identity type not recognized", whatever its
  certificate: the type switch sends every other dynamic type there. So for every
  identity that is built on a CA certificate Validate fails, and its answer does not
  depend on the chain verification \<open>v\<close>, which is not called.
\<close>

theorem Validate_rejects_CA:
  assumes "opts msp \<noteq> None"
  shows "(IsCA (cert i) \<longrightarrow>
           Validate (env\<lparr>Certificate_Verify := v\<rparr>) msp (X509Identity i)
             = Err CAUsedAsIdentity) \<and>
         Validate (env\<lparr>Certificate_Verify := v\<rparr>) msp (X509SigningIdentity s)
           = Err IdentityTypeNotRecognized \<and>
         ((\<forall>j. ident \<noteq> X509Identity j) \<longrightarrow>
            Validate (env\<lparr>Certificate_Verify := v\<rparr>) msp ident
              = Err IdentityTypeNotRecognized) \<and>
         (underlying_certificate ident = Some c \<and> IsCA c \<longrightarrow>
            Validate (env\<lparr>Certificate_Verify := v\<rparr>) msp ident \<noteq> Ok () \<and>
            Validate (env\<lparr>Certificate_Verify := v\<rparr>) msp ident = Validate env msp ident)"
  using assms by (cases ident) (auto simp: Validate_def)

text \<open>Claim C4 as stated fails: Setup with a signing-identity record whose
  certificate is the root certificate gives the store a signing identity on a CA
  certificate, and Validate of it fails with "Identity type not recognized", not with
  the CA error.\<close>

theorem Validate_signing_identity_counterexample:
  "Setup ex_env NewBccspMsp (Some \<lparr>Config = Some [7]\<rparr>) = (Ok (), ex_ca_signer_store) \<and>
   signer ex_ca_signer_store = Some ex_ca_signer \<and>
   opts ex_ca_signer_store = Some \<lparr>Roots = [ex_cert 1 7], Intermediates = []\<rparr> \<and>
   underlying_certificate (X509SigningIdentity ex_ca_signer :: (ex_key, ex_key) Identity)
     = Some (ex_cert 1 7) \<and>
   IsCA (ex_cert 1 7) \<and>
   Validate ex_env ex_ca_signer_store (X509SigningIdentity ex_ca_signer)
     = Err IdentityTypeNotRecognized"
  by (simp add: ex_Setup_ca_signer ex_ca_signer_store_sel)
     (simp add: Validate_def ex_ca_signer_def ex_cert_def)

theorem Validate_rejects_CA_witness:
  "opts ex_store \<noteq> None \<and> IsCA (ex_cert 1 7) \<and>
   ex_Certificate_Verify (ex_cert 1 7) \<lparr>Roots = [ex_cert 1 7], Intermediates = []\<rparr> = None \<and>
   Validate ex_env ex_store
     (X509Identity \<lparr>id_of = \<lparr>Mspid_of = ''org1'', Id_of = ''DEFAULT''\<rparr>,
        cert = ex_cert 1 7, pk = ExPublic 7\<rparr>) = Err CAUsedAsIdentity \<and>
   underlying_certificate (X509SigningIdentity ex_ca_signer :: (ex_key, ex_key) Identity)
     = Some (ex_cert 1 7) \<and>
   Validate ex_env ex_store (X509SigningIdentity ex_ca_signer) = Err IdentityTypeNotRecognized"
proof -
  have o: "opts ex_store \<noteq> None" by (simp add: ex_store_sel)
  have c: "IsCA (ex_cert 1 7)" by (simp add: ex_cert_def)
  have u: "underlying_certificate (X509SigningIdentity ex_ca_signer :: (ex_key, ex_key) Identity)
     = Some (ex_cert 1 7)" by (simp add: ex_ca_signer_def)
  have e: "ex_env\<lparr>Certificate_Verify := ex_Certificate_Verify\<rparr> = ex_env"
    by (simp add: ex_env_def)
  from Validate_rejects_CA [OF o, where env = ex_env and v = ex_Certificate_Verify
      and i = "\<lparr>id_of = \<lparr>Mspid_of = ''org1'', Id_of = ''DEFAULT''\<rparr>,
        cert = ex_cert 1 7, pk = ExPublic 7\<rparr>" and s = ex_ca_signer
      and ident = "X509SigningIdentity ex_ca_signer" and c = "ex_cert 1 7"]
    o c u e
  show ?thesis by (simp add: ex_Certificate_Verify_def)
qed

subsection \<open>The cross-domain guard of DeserializeIdentity\<close>

text \<open>
  Claim C5. When the input unmarshals to a SerializedIdentity record whose \<open>Mspid\<close> is
  not the name of the store, \<open>DeserializeIdentity\<close> returns the mismatch error and no
  identity. Nothing is assumed of the embedded bytes or of the PEM decoder, the
  certificate parser and the key import: the result is the same when they would all
  succeed, because the comparison comes first.
\<close>

theorem DeserializeIdentity_mismatch:
  assumes "Unmarshal_SerializedIdentity env serializedID = Inr sId"
    and "Mspid sId \<noteq> name msp"
  shows "DeserializeIdentity env msp serializedID = Inl (MspIdMismatch (name msp) (Mspid sId))"
  using assms by (simp add: DeserializeIdentity_def)

theorem DeserializeIdentity_mismatch_witness:
  "Unmarshal_SerializedIdentity ex_env (ex_wire ''org2'' [45, 0, 7])
     = Inr \<lparr>Mspid = ''org2'', IdBytes = Some [45, 0, 7]\<rparr> \<and>
   ''org2'' \<noteq> name ex_store \<and>
   deserializeIdentityInternal ex_env ex_store (Some [45, 0, 7])
     = Inr (X509Identity \<lparr>id_of = \<lparr>Mspid_of = ''org1'', Id_of = ''DEFAULT''\<rparr>,
              cert = ex_cert 0 7, pk = ExPublic 7\<rparr>) \<and>
   DeserializeIdentity ex_env ex_store (ex_wire ''org2'' [45, 0, 7])
     = Inl (MspIdMismatch ''org1'' ''org2'')"
proof -
  have u: "Unmarshal_SerializedIdentity ex_env (ex_wire ''org2'' [45, 0, 7])
     = Inr \<lparr>Mspid = ''org2'', IdBytes = Some [45, 0, 7]\<rparr>"
    by (simp add: ex_env_sel ex_Unmarshal_wire)
  have n: "Mspid \<lparr>Mspid = ''org2'', IdBytes = Some [45, 0, 7]\<rparr> \<noteq> name ex_store"
    by (simp add: ex_store_sel)
  have d: "deserializeIdentityInternal ex_env ex_store (Some [45, 0, 7])
     = Inr (X509Identity \<lparr>id_of = \<lparr>Mspid_of = ''org1'', Id_of = ''DEFAULT''\<rparr>,
              cert = ex_cert 0 7, pk = ExPublic 7\<rparr>)"
    by (simp add: deserializeIdentityInternal_def ex_env_sel ex_store_sel ex_pem_Decode_def
        ex_ParseCertificate_def ex_KeyImport_X509PublicKey_def newIdentity_def ex_cert_def)
  from DeserializeIdentity_mismatch [OF u n] u n d show ?thesis
    by (simp add: ex_store_sel)
qed

subsection \<open>The store after a failed Setup\<close>

text \<open>
  Claim C8, as amended. Setup assigns the fields of the store in place, one after the
  other. When it returns an error, the signer and the verification options are the ones
  the store had before the call. For a nil configuration, or one that does not unmarshal,
  the whole store is unchanged. In every other case the name has already been replaced
  by the name in the configuration (and the admin, root and intermediate slices may have
  been replaced as well).
\<close>

theorem Setup_error_state:
  assumes "Setup env msp conf1 = (Err e, msp')"
  shows "signer msp' = signer msp \<and> opts msp' = opts msp \<and>
         (conf1 = None \<longrightarrow> msp' = msp) \<and>
         (\<forall>c1 s. conf1 = Some c1 \<and> Unmarshal_FabricMSPConfig env (Config c1) = Inl s
            \<longrightarrow> msp' = msp) \<and>
         (\<forall>c1 conf. conf1 = Some c1 \<and> Unmarshal_FabricMSPConfig env (Config c1) = Inr conf
            \<longrightarrow> name msp' = Name conf)"
proof (cases conf1)
  case None
  with assms show ?thesis by (simp add: Setup_def)
next
  case (Some c1)
  show ?thesis
  proof (cases "Unmarshal_FabricMSPConfig env (Config c1)")
    case (Inl s)
    with Some assms show ?thesis by (simp add: Setup_def)
  next
    case (Inr conf)
    obtain r2 m2 where a: "setup_admins env (msp\<lparr>name := Name conf\<rparr>) conf = (r2, m2)"
      by force
    obtain r3 m3 where b: "setup_roots env m2 conf = (r3, m3)" by force
    obtain r4 m4 where c: "setup_intermediates env m3 conf = (r4, m4)" by force
    obtain r5 m5 where d: "setup_signer env m4 conf = (r5, m5)" by force
    note fa = setup_admins_fields [OF a] and fb = setup_roots_fields [OF b]
      and fc = setup_intermediates_fields [OF c] and fd = setup_signer_fields [OF d]
    have run: "(Err e, msp') =
       (case r2 of Some e \<Rightarrow> (Err e, m2) | None \<Rightarrow>
         (case r3 of Some e \<Rightarrow> (Err e, m3) | None \<Rightarrow>
           (case r4 of Some e \<Rightarrow> (Err e, m4) | None \<Rightarrow>
             (case r5 of Err e \<Rightarrow> (Err e, m5) | Panic p \<Rightarrow> (Panic p, m5)
                | Ok u \<Rightarrow> setup_opts m5))))"
      using assms Some Setup_run [OF Inr a b c d] by simp
    have "signer msp' = signer msp \<and> opts msp' = opts msp \<and> name msp' = Name conf"
    proof (cases r2)
      case (Some e2)
      with run fa show ?thesis by simp
    next
      case n2: None
      show ?thesis
      proof (cases r3)
        case (Some e3)
        with run n2 fa fb show ?thesis by simp
      next
        case n3: None
        show ?thesis
        proof (cases r4)
          case (Some e4)
          with run n2 n3 fa fb fc show ?thesis by simp
        next
          case n4: None
          show ?thesis
          proof (cases r5)
            case (Ok u)
            with run n2 n3 n4 have "fst (setup_opts m5) = Err e"
              by (metis fst_conv option.simps(4) result.simps(10))
            with setup_opts_not_Err show ?thesis by blast
          next
            case (Err e5)
            with d have "m5 = m4" using setup_signer_not_Ok by blast
            with Err run n2 n3 n4 fa fb fc show ?thesis by simp
          next
            case (Panic p)
            with run n2 n3 n4 show ?thesis by simp
          qed
        qed
      qed
    qed
    with Some Inr show ?thesis by simp
  qed
qed

text \<open>Claim C8 as stated fails: Setup on a new store, with a configuration that names
  the provider \<open>org2\<close> and has no root certificate, returns an error and leaves the
  store with the name \<open>org2\<close> instead of the empty name it had.\<close>

theorem Setup_not_atomic_counterexample:
  "fst (Setup ex_env NewBccspMsp (Some \<lparr>Config = Some [2]\<rparr>)) = Err NoRootCerts \<and>
   name (snd (Setup ex_env NewBccspMsp (Some \<lparr>Config = Some [2]\<rparr>))) = ''org2'' \<and>
   name (NewBccspMsp :: (ex_key, ex_key) bccspmsp) = []"
  by (simp add: ex_Setup_2) (simp add: NewBccspMsp_def)

theorem Setup_error_state_witness:
  "Setup ex_env NewBccspMsp (Some \<lparr>Config = Some [2]\<rparr>)
     = (Err NoRootCerts, NewBccspMsp\<lparr>name := ''org2''\<rparr>) \<and>
   signer (NewBccspMsp\<lparr>name := ''org2''\<rparr> :: (ex_key, ex_key) bccspmsp)
     = signer (NewBccspMsp :: (ex_key, ex_key) bccspmsp) \<and>
   opts (NewBccspMsp\<lparr>name := ''org2''\<rparr> :: (ex_key, ex_key) bccspmsp)
     = opts (NewBccspMsp :: (ex_key, ex_key) bccspmsp) \<and>
   name (NewBccspMsp\<lparr>name := ''org2''\<rparr> :: (ex_key, ex_key) bccspmsp) = ''org2'' \<and>
   Setup ex_env NewBccspMsp None = (Err NilConf, NewBccspMsp) \<and>
   Setup ex_env NewBccspMsp (Some \<lparr>Config = Some [0]\<rparr>)
     = (Err (UnmarshalConfFailed ''unknown configuration''), NewBccspMsp)"
  using Setup_error_state [OF ex_Setup_2] Setup_error_state [OF ex_Setup_None]
    Setup_error_state [OF ex_Setup_unknown]
  by (simp add: ex_Setup_2 ex_Setup_None ex_Setup_unknown)

subsection \<open>The signing identity that Setup builds\<close>

text \<open>
  Claim C2, as amended. When the configuration holds a signing-identity record and Setup
  succeeds, then the public certificate of the record was PEM-decoded, parsed and its
  public key imported, the key material was PEM-decoded and imported as a private key, a
  signer was initialised with that key, and the signer of the store is the signing
  identity made of that certificate, that public key and that signer, under the name of
  the configuration. A failure of any of these steps is a failure of Setup. The signer
  is initialised from the private key alone and nothing compares its public key with the
  key of the certificate.
\<close>

theorem Setup_signing_identity:
  assumes "Setup env msp (Some c1) = (Ok (), msp')"
    and "Unmarshal_FabricMSPConfig env (Config c1) = Inr conf"
    and "SigningIdentity conf = Some si"
  shows "\<exists>pemCert c k ki pemKey key s.
           pem_Decode env (PublicSigner si) = Some pemCert \<and>
           x509_ParseCertificate env (Bytes pemCert) = Inr c \<and>
           KeyImport_X509PublicKey env c = Inr k \<and>
           PrivateSigner si = Some ki \<and>
           pem_Decode env (KeyMaterial ki) = Some pemKey \<and>
           KeyImport_ECDSAPrivateKey env (Bytes pemKey) = Inr key \<and>
           CryptoSigner_Init env key = Inr s \<and>
           signer msp' = Some \<lparr>id_of = \<lparr>Mspid_of = Name conf, Id_of = ''DEFAULT''\<rparr>,
                                cert = c, pk = k, sid_signer = s\<rparr>"
proof -
  from assms(1) obtain c1' conf' m2 m3 m4 m5 where c: "Some c1 = Some c1'"
    and u: "Unmarshal_FabricMSPConfig env (Config c1') = Inr conf'"
    and a: "setup_admins env (msp\<lparr>name := Name conf'\<rparr>) conf' = (None, m2)"
    and r: "setup_roots env m2 conf' = (None, m3)"
    and i: "setup_intermediates env m3 conf' = (None, m4)"
    and s: "setup_signer env m4 conf' = (Ok (), m5)"
    and p: "setup_opts m5 = (Ok (), msp')"
    by (rule Setup_Ok_stages)
  from c u assms(2) have [simp]: "conf' = conf" by simp
  have n: "name m4 = Name conf"
    using setup_admins_fields [OF a] setup_roots_fields [OF r]
      setup_intermediates_fields [OF i] by simp
  from s assms(3) obtain sid where g: "getSigningIdentityFromConf env m4 (Some si) = Ok sid"
    and m5: "signer m5 = Some sid"
    by (auto simp: setup_signer_def split: result.splits)
  from setup_opts_fields [OF p] m5 have "signer msp' = Some sid" by simp
  with getSigningIdentityFromConf_Ok [OF g] n show ?thesis by auto
qed

text \<open>Claim C2 as stated fails: on the small instance Setup succeeds with a signing
  identity whose certificate holds the public key 7 and whose signer is bound to the
  private key 9, of public key 9.\<close>

theorem Setup_signer_key_differs_counterexample:
  "Setup ex_env NewBccspMsp (Some \<lparr>Config = Some [4]\<rparr>) = (Ok (), ex_signing_store) \<and>
   signer ex_signing_store = Some \<lparr>id_of = \<lparr>Mspid_of = ''org1'', Id_of = ''DEFAULT''\<rparr>,
        cert = ex_cert 0 7, pk = ExPublic 7, sid_signer = ExPrivate 9\<rparr> \<and>
   KeyImport_X509PublicKey ex_env (ex_cert 0 7) = Inr (ExPublic 7) \<and>
   ex_Public (ExPrivate 9) = ExPublic 9 \<and>
   ExPublic 9 \<noteq> ExPublic 7"
  by (simp add: ex_Setup_signing ex_env_sel)
     (simp add: ex_signing_store_def ex_KeyImport_X509PublicKey_def ex_cert_def)

theorem Setup_signing_identity_witness:
  "Setup ex_env NewBccspMsp (Some \<lparr>Config = Some [4]\<rparr>) = (Ok (), ex_signing_store) \<and>
   pem_Decode ex_env ex_member = Some \<lparr>Type = ''CERTIFICATE'', Bytes = Some [0, 7]\<rparr> \<and>
   x509_ParseCertificate ex_env (Some [0, 7]) = Inr (ex_cert 0 7) \<and>
   KeyImport_X509PublicKey ex_env (ex_cert 0 7) = Inr (ExPublic 7) \<and>
   pem_Decode ex_env (Some [45, 9]) = Some \<lparr>Type = ''CERTIFICATE'', Bytes = Some [9]\<rparr> \<and>
   KeyImport_ECDSAPrivateKey ex_env (Some [9]) = Inr (ExPrivate 9) \<and>
   CryptoSigner_Init ex_env (ExPrivate 9) = Inr (ExPrivate 9) \<and>
   signer ex_signing_store = Some \<lparr>id_of = \<lparr>Mspid_of = ''org1'', Id_of = ''DEFAULT''\<rparr>,
        cert = ex_cert 0 7, pk = ExPublic 7, sid_signer = ExPrivate 9\<rparr>"
proof -
  have si: "SigningIdentity \<lparr>Name = ''org1'', RootCerts = Some [ex_root], IntermediateCerts = None,
          Admins = None, SigningIdentity =
            Some \<lparr>PublicSigner = ex_member, PrivateSigner =
              Some \<lparr>KeyIdentifier = [], KeyMaterial = Some [45, 9]\<rparr>\<rparr>\<rparr>
     = Some \<lparr>PublicSigner = ex_member, PrivateSigner =
              Some \<lparr>KeyIdentifier = [], KeyMaterial = Some [45, 9]\<rparr>\<rparr>"
    by simp
  from Setup_signing_identity [OF ex_Setup_signing ex_Unmarshal_conf_4 si]
  have "signer ex_signing_store \<noteq> None" by auto
  then show ?thesis
    by (simp add: ex_Setup_signing ex_env_sel ex_member_def ex_pem_Decode_def ex_ParseCertificate_def
        ex_KeyImport_X509PublicKey_def ex_KeyImport_ECDSAPrivateKey_def ex_CryptoSigner_Init_def
        ex_cert_def ex_signing_store_def)
qed

subsection \<open>The key material of the signing identity\<close>

text \<open>
  Claim C9, at its failing input. The configuration has one root certificate and a
  signing identity whose certificate is well formed and whose key material is the single
  byte 9, which is not a PEM block. \<open>pem.Decode\<close> returns nil,
  \<open>getSigningIdentityFromConf\<close> reads the field \<open>Bytes\<close> of that nil block, and Setup
  ends in a nil-pointer panic instead of returning an error.
\<close>

theorem Setup_panics_on_non_PEM_key:
  "pem_Decode ex_env (Some [9]) = None \<and>
   fst (Setup ex_env NewBccspMsp (Some \<lparr>Config = Some [5]\<rparr>)) = Panic NilPointerDereference"
  by (simp add: ex_Setup_5 ex_env_sel ex_pem_Decode_def)

subsection \<open>The name that SatisfiesPrincipal compares\<close>

text \<open>
  Claim C6, at its failing inputs. The store is named \<open>org1\<close> and the identity claims the
  provider \<open>org2\<close>. A ROLE principal for a member of \<open>org2\<close>, the provider of the
  identity, is answered with the different-MSP error (expected \<open>org2\<close>, got \<open>org2\<close>); a
  ROLE principal for a member of \<open>org1\<close>, which is not the provider of the identity, is
  not: the code compares the name in the principal with the name of the store.
\<close>

theorem SatisfiesPrincipal_compares_store_name:
  "name ex_store = ''org1'' \<and>
   GetMSPIdentifier (ex_identity ''org2'' 0) = Some ''org2'' \<and>
   SatisfiesPrincipal ex_env ex_store (ex_identity ''org2'' 0) (Some (ex_role 0 ''org2''))
     = Err (DifferentMSP ''org2'' ''org2'') \<and>
   SatisfiesPrincipal ex_env ex_store (ex_identity ''org2'' 0) (Some (ex_role 0 ''org1''))
     = Ok ()"
  by (simp add: SatisfiesPrincipal_def ex_Unmarshal_role ex_store_sel ex_principal_class
      ex_identity_msp)
     (simp add: Validate_def ex_identity_def ex_store_sel ex_cert_def ex_env_sel
      ex_Certificate_Verify_def)

subsection \<open>DeserializeIdentity on a store without Setup\<close>

text \<open>
  Claim C10. DeserializeIdentity never returns the error "Invalid msp instance" of a
  store without verification options, and its result is the one it has on a new store
  that carries the same name: no field but the name is read. The name of a new store is
  empty. A record with another name gets the mismatch error; a record with the name of
  the store, whose bytes decode, parse and yield a public key, gives the identity of that
  certificate.
\<close>

theorem DeserializeIdentity_no_setup_check:
  "DeserializeIdentity env msp b \<noteq> Inl InvalidMspInstance \<and>
   DeserializeIdentity env msp b
     = DeserializeIdentity env ((NewBccspMsp :: ('k, 's) bccspmsp)\<lparr>name := name msp\<rparr>) b \<and>
   name (NewBccspMsp :: ('k, 's) bccspmsp) = [] \<and>
   (Unmarshal_SerializedIdentity env b = Inr sId \<and> Mspid sId \<noteq> name msp \<longrightarrow>
      DeserializeIdentity env msp b = Inl (MspIdMismatch (name msp) (Mspid sId))) \<and>
   (Unmarshal_SerializedIdentity env b = Inr sId \<and> Mspid sId = name msp \<and>
    pem_Decode env (IdBytes sId) = Some bl \<and> x509_ParseCertificate env (Bytes bl) = Inr c \<and>
    KeyImport_X509PublicKey env c = Inr k \<longrightarrow>
      DeserializeIdentity env msp b
        = Inr (X509Identity \<lparr>id_of = \<lparr>Mspid_of = name msp, Id_of = ''DEFAULT''\<rparr>,
                 cert = c, pk = k\<rparr>))"
  for env :: "('k, 's) bccsp_env" and msp :: "('k, 's) bccspmsp"
  by (auto simp: DeserializeIdentity_def deserializeIdentityInternal_def newIdentity_def
      NewBccspMsp_def split: sum.splits option.splits)

theorem DeserializeIdentity_no_setup_check_witness:
  "opts (NewBccspMsp :: (ex_key, ex_key) bccspmsp) = None \<and>
   Unmarshal_SerializedIdentity ex_env (ex_wire [] [45, 0, 7])
     = Inr \<lparr>Mspid = [], IdBytes = Some [45, 0, 7]\<rparr> \<and>
   pem_Decode ex_env (Some [45, 0, 7]) = Some \<lparr>Type = ''CERTIFICATE'', Bytes = Some [0, 7]\<rparr> \<and>
   x509_ParseCertificate ex_env (Some [0, 7]) = Inr (ex_cert 0 7) \<and>
   KeyImport_X509PublicKey ex_env (ex_cert 0 7) = Inr (ExPublic 7) \<and>
   DeserializeIdentity ex_env NewBccspMsp (ex_wire [] [45, 0, 7])
     = Inr (X509Identity \<lparr>id_of = \<lparr>Mspid_of = [], Id_of = ''DEFAULT''\<rparr>,
              cert = ex_cert 0 7, pk = ExPublic 7\<rparr>) \<and>
   Unmarshal_SerializedIdentity ex_env (ex_wire ''org1'' [45, 0, 7])
     = Inr \<lparr>Mspid = ''org1'', IdBytes = Some [45, 0, 7]\<rparr> \<and>
   DeserializeIdentity ex_env NewBccspMsp (ex_wire ''org1'' [45, 0, 7])
     = Inl (MspIdMismatch [] ''org1'')"
proof -
  have n: "name (NewBccspMsp :: (ex_key, ex_key) bccspmsp) = []"
    and o: "opts (NewBccspMsp :: (ex_key, ex_key) bccspmsp) = None"
    by (simp_all add: NewBccspMsp_def)
  have u: "Unmarshal_SerializedIdentity ex_env (ex_wire nm [45, 0, 7])
     = Inr \<lparr>Mspid = nm, IdBytes = Some [45, 0, 7]\<rparr>" if "length nm < 256" for nm
    using that by (simp add: ex_env_sel ex_Unmarshal_wire)
  have p: "pem_Decode ex_env (Some [45, 0, 7]) = Some \<lparr>Type = ''CERTIFICATE'', Bytes = Some [0, 7]\<rparr>"
    by (simp add: ex_env_sel ex_pem_Decode_def)
  have x: "x509_ParseCertificate ex_env (Some [0, 7]) = Inr (ex_cert 0 7)"
    by (simp add: ex_env_sel ex_ParseCertificate_def ex_cert_def)
  have k: "KeyImport_X509PublicKey ex_env (ex_cert 0 7) = Inr (ExPublic 7)"
    by (simp add: ex_env_sel ex_KeyImport_X509PublicKey_def ex_cert_def)
  have e: "(NewBccspMsp :: (ex_key, ex_key) bccspmsp)\<lparr>name := []\<rparr> = NewBccspMsp"
    by (simp add: NewBccspMsp_def)
  note t = DeserializeIdentity_no_setup_check [where env = ex_env and msp = NewBccspMsp]
  from t [of "ex_wire [] [45, 0, 7]" "\<lparr>Mspid = [], IdBytes = Some [45, 0, 7]\<rparr>"
        "\<lparr>Type = ''CERTIFICATE'', Bytes = Some [0, 7]\<rparr>" "ex_cert 0 7" "ExPublic 7"]
     t [of "ex_wire ''org1'' [45, 0, 7]" "\<lparr>Mspid = ''org1'', IdBytes = Some [45, 0, 7]\<rparr>"]
     n o u [of "[]"] u [of "''org1''"] p x k
  show ?thesis by (simp add: e)
qed

subsection \<open>Setup without root certificates\<close>

text \<open>
  Claim C3, as amended. When the configuration has no root certificate, Setup returns an
  error: "Expected at least one CA certificate" when every admin certificate is
  ingested, and otherwise the ingest error of the first admin certificate that fails,
  since the admins are read before the roots are counted. The root and intermediate
  slices, the signer and the verification options of the store are the ones from before
  the call, so Validate answers on the store what it answered before: on a store without
  verification options it accepts no identity, and a store that was set up before keeps
  its trust anchors, under the name of the configuration. After a successful Setup the root slice is not empty and has one
  entry for each root certificate of the configuration, in their order: the identity
  that the certificate ingest returns for it, which is an \<open>identity\<close>.
\<close>

theorem Setup_root_invariant:
  "(Unmarshal_FabricMSPConfig env (Config c1) = Inr conf \<and> len (RootCerts conf) = 0 \<longrightarrow>
     (\<exists>e msp'. Setup env msp (Some c1) = (Err e, msp') \<and>
        rootCerts msp' = rootCerts msp \<and> intermediateCerts msp' = intermediateCerts msp \<and>
        signer msp' = signer msp \<and> opts msp' = opts msp \<and> name msp' = Name conf \<and>
        (\<forall>ident. Validate env msp' ident = Validate env msp ident) \<and>
        (opts msp = None \<longrightarrow> (\<forall>ident. Validate env msp' ident \<noteq> Ok ())) \<and>
        (if \<forall>b \<in> set (elems (Admins conf)).
              \<exists>x. getIdentityFromConf env (msp\<lparr>name := Name conf\<rparr>) b = Inr x
         then e = NoRootCerts
         else \<exists>j < len (Admins conf).
                getIdentityFromConf env (msp\<lparr>name := Name conf\<rparr>) (elems (Admins conf) ! j)
                  = Inl e \<and>
                (\<forall>j' < j. \<exists>x. getIdentityFromConf env (msp\<lparr>name := Name conf\<rparr>)
                    (elems (Admins conf) ! j') = Inr x)))) \<and>
   (Setup env msp conf1 = (Ok (), msp'') \<longrightarrow>
     (\<exists>c conf' ids. conf1 = Some c \<and>
        Unmarshal_FabricMSPConfig env (Config c) = Inr conf' \<and>
        rootCerts msp'' = Some ids \<and> ids \<noteq> [] \<and>
        length ids = len (RootCerts conf') \<and>
        (\<forall>j < length ids.
           getIdentityFromConf env (msp\<lparr>name := Name conf'\<rparr>) (elems (RootCerts conf') ! j)
             = Inr (ids ! j)) \<and>
        (\<forall>x \<in> set ids. \<exists>i. x = X509Identity i)))"
proof (intro conjI impI)
  assume h: "Unmarshal_FabricMSPConfig env (Config c1) = Inr conf \<and> len (RootCerts conf) = 0"
  then obtain e msp' where s: "Setup env msp (Some c1) = (Err e, msp')"
    and f: "rootCerts msp' = rootCerts msp" "intermediateCerts msp' = intermediateCerts msp"
      "signer msp' = signer msp" "opts msp' = opts msp"
    and nm: "name msp' = Name conf"
    and k: "if \<forall>b \<in> set (elems (Admins conf)).
              \<exists>x. getIdentityFromConf env (msp\<lparr>name := Name conf\<rparr>) b = Inr x
         then e = NoRootCerts
         else \<exists>j < len (Admins conf).
                getIdentityFromConf env (msp\<lparr>name := Name conf\<rparr>) (elems (Admins conf) ! j)
                  = Inl e \<and>
                (\<forall>j' < j. \<exists>x. getIdentityFromConf env (msp\<lparr>name := Name conf\<rparr>)
                    (elems (Admins conf) ! j') = Inr x)"
    using Setup_no_roots [of env c1 conf msp] by blast
  have v: "\<forall>ident. Validate env msp' ident = Validate env msp ident"
    using Validate_opts [OF f(4)] by blast
  have w: "opts msp = None \<longrightarrow> (\<forall>ident. Validate env msp' ident \<noteq> Ok ())"
    using Validate_no_opts [of msp'] f(4) by simp
  from s f nm v w k
  show "\<exists>e msp'. Setup env msp (Some c1) = (Err e, msp') \<and>
        rootCerts msp' = rootCerts msp \<and> intermediateCerts msp' = intermediateCerts msp \<and>
        signer msp' = signer msp \<and> opts msp' = opts msp \<and> name msp' = Name conf \<and>
        (\<forall>ident. Validate env msp' ident = Validate env msp ident) \<and>
        (opts msp = None \<longrightarrow> (\<forall>ident. Validate env msp' ident \<noteq> Ok ())) \<and>
        (if \<forall>b \<in> set (elems (Admins conf)).
              \<exists>x. getIdentityFromConf env (msp\<lparr>name := Name conf\<rparr>) b = Inr x
         then e = NoRootCerts
         else \<exists>j < len (Admins conf).
                getIdentityFromConf env (msp\<lparr>name := Name conf\<rparr>) (elems (Admins conf) ! j)
                  = Inl e \<and>
                (\<forall>j' < j. \<exists>x. getIdentityFromConf env (msp\<lparr>name := Name conf\<rparr>)
                    (elems (Admins conf) ! j') = Inr x))"
    by (intro exI [of _ e] exI [of _ msp']) simp
next
  assume "Setup env msp conf1 = (Ok (), msp'')"
  from Setup_Ok_roots [OF this]
  show "\<exists>c conf' ids. conf1 = Some c \<and>
        Unmarshal_FabricMSPConfig env (Config c) = Inr conf' \<and>
        rootCerts msp'' = Some ids \<and> ids \<noteq> [] \<and>
        length ids = len (RootCerts conf') \<and>
        (\<forall>j < length ids.
           getIdentityFromConf env (msp\<lparr>name := Name conf'\<rparr>) (elems (RootCerts conf') ! j)
             = Inr (ids ! j)) \<and>
        (\<forall>x \<in> set ids. \<exists>i. x = X509Identity i)"
    by blast
qed

text \<open>Claim C3 as stated fails twice. With no root certificate and an admin
  certificate that is not a PEM block, the error of Setup is the decode error of the
  certificate ingest, which the specification lists as a DecodeError and not as a
  ConfigError. And on the store set up for \<open>org1\<close>, Setup with the configuration of
  \<open>org2\<close>, which has no root certificate, fails and leaves a store named \<open>org2\<close> with
  the trust anchors of \<open>org1\<close>, on which Validate accepts an identity.\<close>

theorem Setup_no_roots_admin_error_counterexample:
  "Unmarshal_FabricMSPConfig ex_env (Config \<lparr>Config = Some [3]\<rparr>) =
     Inr \<lparr>Name = ''org1'', RootCerts = None, IntermediateCerts = None,
          Admins = Some [Some [0]], SigningIdentity = None\<rparr> \<and>
   fst (Setup ex_env NewBccspMsp (Some \<lparr>Config = Some [3]\<rparr>)) = Err PemDecodeFailed \<and>
   spec_error_of PemDecodeFailed = DecodeError \<and>
   spec_error_of PemDecodeFailed \<noteq> ConfigError \<and>
   Unmarshal_FabricMSPConfig ex_env (Config \<lparr>Config = Some [2]\<rparr>) =
     Inr \<lparr>Name = ''org2'', RootCerts = None, IntermediateCerts = None,
          Admins = None, SigningIdentity = None\<rparr> \<and>
   Setup ex_env ex_store (Some \<lparr>Config = Some [2]\<rparr>)
     = (Err NoRootCerts, ex_store\<lparr>name := ''org2''\<rparr>) \<and>
   Validate ex_env (ex_store\<lparr>name := ''org2''\<rparr>) (ex_identity ''org2'' 0) = Ok ()"
  using ex_Unmarshal_conf_3 ex_Unmarshal_conf_2
  by (simp add: ex_Setup_3 ex_Setup_rename ex_Validate_renamed)

theorem Setup_root_invariant_witness:
  "Unmarshal_FabricMSPConfig ex_env (Config \<lparr>Config = Some [2]\<rparr>) =
     Inr \<lparr>Name = ''org2'', RootCerts = None, IntermediateCerts = None,
          Admins = None, SigningIdentity = None\<rparr> \<and>
   opts (NewBccspMsp :: (ex_key, ex_key) bccspmsp) = None \<and>
   Setup ex_env NewBccspMsp (Some \<lparr>Config = Some [2]\<rparr>)
     = (Err NoRootCerts, NewBccspMsp\<lparr>name := ''org2''\<rparr>) \<and>
   Validate ex_env (NewBccspMsp\<lparr>name := ''org2''\<rparr>) (ex_identity ''org2'' 0)
     = Err InvalidMspInstance \<and>
   Setup ex_env NewBccspMsp (Some \<lparr>Config = Some [1]\<rparr>) = (Ok (), ex_store) \<and>
   Unmarshal_FabricMSPConfig ex_env (Config \<lparr>Config = Some [1]\<rparr>) =
     Inr \<lparr>Name = ''org1'', RootCerts = Some [ex_root], IntermediateCerts = None,
          Admins = None, SigningIdentity = None\<rparr> \<and>
   getIdentityFromConf ex_env (NewBccspMsp\<lparr>name := ''org1''\<rparr>) ex_root
     = Inr (X509Identity ex_root_identity) \<and>
   rootCerts ex_store = Some [X509Identity ex_root_identity]"
proof -
  note t = Setup_root_invariant [where env = ex_env and msp = NewBccspMsp]
  have o: "opts (NewBccspMsp :: (ex_key, ex_key) bccspmsp) = None"
    by (simp add: NewBccspMsp_def)
  from t [where ?c1.0 = "\<lparr>Config = Some [2]\<rparr>" and ?conf1.0 = "Some \<lparr>Config = Some [1]\<rparr>"
        and msp'' = ex_store and conf = "\<lparr>Name = ''org2'', RootCerts = None,
          IntermediateCerts = None, Admins = None, SigningIdentity = None\<rparr>"]
     ex_Unmarshal_conf_2 ex_Setup_1 o
  have "fst (Setup ex_env NewBccspMsp (Some \<lparr>Config = Some [2]\<rparr>)) = Err NoRootCerts"
    and "Validate ex_env (snd (Setup ex_env NewBccspMsp (Some \<lparr>Config = Some [2]\<rparr>)))
           (ex_identity ''org2'' 0) \<noteq> Ok ()"
    and "rootCerts ex_store \<noteq> None"
    by auto
  then show ?thesis
    using ex_Unmarshal_conf_2 ex_Unmarshal_conf_1
    by (simp add: ex_Setup_2 ex_Setup_1 ex_store_roots ex_ingest_root o)
       (simp add: Validate_def ex_identity_def NewBccspMsp_def)
qed

subsection \<open>Serialising and deserialising an identity\<close>

text \<open>
  Claim C7, as amended. Let the identity claim the name of the store, and let the
  imported functions invert each other on it: its serialised form unmarshals to the
  record that was marshalled, the PEM block decodes to the raw bytes of the certificate,
  these parse to the certificate, and its public key imports to the key of the identity.
  Then DeserializeIdentity of the serialised form returns an identity with the same
  certificate and the same public key, and with the local id \<open>DEFAULT\<close>. So the
  identifier is the one of the original identity exactly when that one has the local id
  \<open>DEFAULT\<close>, as the identities from DeserializeIdentity have; the identities that
  Setup ingests have the local id \<open>IDENTITY\<close>.
\<close>

theorem DeserializeIdentity_roundtrip:
  assumes "Mspid_of (id_of I) = name msp"
    and "serialize_identity env I = Inr ser"
    and "Unmarshal_SerializedIdentity env ser =
           Inr \<lparr>Mspid = Mspid_of (id_of I),
                IdBytes = pem_EncodeToMemory env \<lparr>Type = ''CERTIFICATE'', Bytes = Raw (cert I)\<rparr>\<rparr>"
    and "pem_Decode env (pem_EncodeToMemory env \<lparr>Type = ''CERTIFICATE'', Bytes = Raw (cert I)\<rparr>)
           = Some bl"
    and "Bytes bl = Raw (cert I)"
    and "x509_ParseCertificate env (Raw (cert I)) = Inr (cert I)"
    and "KeyImport_X509PublicKey env (cert I) = Inr (pk I)"
  shows "\<exists>I'. DeserializeIdentity env msp ser = Inr (X509Identity I') \<and>
           cert I' = cert I \<and> pk I' = pk I \<and>
           id_of I' = \<lparr>Mspid_of = name msp, Id_of = ''DEFAULT''\<rparr> \<and>
           (id_of I' = id_of I \<longleftrightarrow> Id_of (id_of I) = ''DEFAULT'')"
proof -
  let ?I' = "\<lparr>id_of = \<lparr>Mspid_of = name msp, Id_of = ''DEFAULT''\<rparr>, cert = cert I, pk = pk I\<rparr>"
  from assms have "DeserializeIdentity env msp ser = Inr (X509Identity ?I')"
    by (simp add: DeserializeIdentity_def deserializeIdentityInternal_def newIdentity_def)
  moreover have "id_of ?I' = id_of I \<longleftrightarrow> Id_of (id_of I) = ''DEFAULT''"
    using assms(1) by (cases "id_of I") auto
  ultimately show ?thesis by (intro exI [of _ ?I']) simp
qed

text \<open>Claim C7 as stated fails: the admin identity that Setup has put into the store
  passes Validate and has the local id \<open>IDENTITY\<close>, and its serialised form
  deserialises to an identity with the local id \<open>DEFAULT\<close>.\<close>

theorem DeserializeIdentity_roundtrip_counterexample:
  "Setup ex_env NewBccspMsp (Some \<lparr>Config = Some [6]\<rparr>) = (Ok (), ex_admin_store) \<and>
   admins ex_admin_store = Some [X509Identity ex_admin_identity] \<and>
   Validate ex_env ex_admin_store (X509Identity ex_admin_identity) = Ok () \<and>
   Mspid_of (id_of ex_admin_identity) = name ex_admin_store \<and>
   serialize_identity ex_env ex_admin_identity = Inr (ex_wire ''org1'' [45, 0, 7]) \<and>
   DeserializeIdentity ex_env ex_admin_store (ex_wire ''org1'' [45, 0, 7])
     = Inr (X509Identity
             (ex_admin_identity\<lparr>id_of := \<lparr>Mspid_of = ''org1'', Id_of = ''DEFAULT''\<rparr>\<rparr>)) \<and>
   id_of (ex_admin_identity\<lparr>id_of := \<lparr>Mspid_of = ''org1'', Id_of = ''DEFAULT''\<rparr>\<rparr>)
     \<noteq> id_of ex_admin_identity"
  by (simp add: ex_Setup_admin ex_Validate_admin ex_admin_store_sel)
     (simp add: ex_admin_identity_def ex_serialize ex_deserialize ex_admin_store_sel)

theorem DeserializeIdentity_roundtrip_witness:
  "Mspid_of (id_of ex_member_identity) = name ex_admin_store \<and>
   serialize_identity ex_env ex_member_identity = Inr (ex_wire ''org1'' [45, 0, 7]) \<and>
   DeserializeIdentity ex_env ex_admin_store (ex_wire ''org1'' [45, 0, 7])
     = Inr (X509Identity ex_member_identity) \<and>
   Mspid_of (id_of ex_admin_identity) = name ex_admin_store \<and>
   serialize_identity ex_env ex_admin_identity = Inr (ex_wire ''org1'' [45, 0, 7]) \<and>
   (\<exists>I'. DeserializeIdentity ex_env ex_admin_store (ex_wire ''org1'' [45, 0, 7])
            = Inr (X509Identity I') \<and> cert I' = cert ex_admin_identity \<and>
          id_of I' \<noteq> id_of ex_admin_identity)"
proof -
  have n: "Mspid_of (id_of ex_member_identity) = name ex_admin_store"
    "Mspid_of (id_of ex_admin_identity) = name ex_admin_store"
    by (simp_all add: ex_member_identity_def ex_admin_identity_def ex_admin_store_sel)
  have s: "serialize_identity ex_env ex_member_identity = Inr (ex_wire ''org1'' [45, 0, 7])"
    "serialize_identity ex_env ex_admin_identity = Inr (ex_wire ''org1'' [45, 0, 7])"
    by (simp_all add: ex_member_identity_def ex_admin_identity_def ex_serialize)
  have u: "Unmarshal_SerializedIdentity ex_env (ex_wire ''org1'' [45, 0, 7]) =
           Inr \<lparr>Mspid = ''org1'',
                IdBytes = pem_EncodeToMemory ex_env
                  \<lparr>Type = ''CERTIFICATE'', Bytes = Raw (ex_cert 0 7)\<rparr>\<rparr>"
    by (simp add: ex_env_sel ex_Unmarshal_wire ex_pem_EncodeToMemory_def ex_cert_def)
  have p: "pem_Decode ex_env (pem_EncodeToMemory ex_env
             \<lparr>Type = ''CERTIFICATE'', Bytes = Raw (ex_cert 0 7)\<rparr>)
           = Some \<lparr>Type = ''CERTIFICATE'', Bytes = Raw (ex_cert 0 7)\<rparr>"
    by (simp add: ex_env_sel ex_pem_EncodeToMemory_def ex_pem_Decode_def ex_cert_def)
  have x: "x509_ParseCertificate ex_env (Raw (ex_cert 0 7)) = Inr (ex_cert 0 7)"
    by (simp add: ex_env_sel ex_ParseCertificate_def ex_cert_def)
  have k: "KeyImport_X509PublicKey ex_env (ex_cert 0 7) = Inr (ExPublic 7)"
    by (simp add: ex_env_sel ex_KeyImport_X509PublicKey_def ex_cert_def)
  have m: "DeserializeIdentity ex_env ex_admin_store (ex_wire ''org1'' [45, 0, 7])
     = Inr (X509Identity ex_member_identity)"
    using DeserializeIdentity_roundtrip [where I = ex_member_identity and env = ex_env
        and msp = ex_admin_store and ser = "ex_wire ''org1'' [45, 0, 7]"
        and bl = "\<lparr>Type = ''CERTIFICATE'', Bytes = Raw (ex_cert 0 7)\<rparr>"]
      n s u p x k
    by (auto simp: ex_member_identity_def)
  have r: "\<exists>I'. DeserializeIdentity ex_env ex_admin_store (ex_wire ''org1'' [45, 0, 7])
            = Inr (X509Identity I') \<and> cert I' = cert ex_admin_identity \<and>
          id_of I' \<noteq> id_of ex_admin_identity"
    using DeserializeIdentity_roundtrip [where I = ex_admin_identity and env = ex_env
        and msp = ex_admin_store and ser = "ex_wire ''org1'' [45, 0, 7]"
        and bl = "\<lparr>Type = ''CERTIFICATE'', Bytes = Raw (ex_cert 0 7)\<rparr>"]
      n s u p x k
    by (auto simp: ex_admin_identity_def)
  from n s m r show ?thesis by simp
qed

end
